theory Spec2Isabelle
  imports Complex_Main "HOL-Library.Multiset" "HOL-Library.Char_ord" "HOL-Library.List_Lexorder"
begin

section \<open>Errors\<close>

text \<open>
  Every error the modelled functions return, and the one panic they can run into, as a
  value. \<open>NodeError i e\<close> is \<open>fmt.Errorf("node %d: %w", i, err)\<close> and
  \<open>InvalidSupplyChain e\<close> is \<open>fmt.Errorf("invalid supply chain: %w", err)\<close>.
\<close>

datatype error =
    UnsupportedAdType string
  | PublisherIDRequired
  | SupplyChainIsNil
  | NoNodes
  | VersionRequired
  | ASIRequired
  | SIDRequired
  | HPInvalid int
  | NodeError nat error
  | SourceIsNil
  | InvalidSupplyChain error
  | SyntaxError
  | UnmarshalTypeError
  | NilMapPanic

section \<open>JSON values and the encoding/json calls\<close>

text \<open>
  The code calls \<open>json.Marshal\<close> and \<open>json.Unmarshal\<close> of the Go standard
  library. The library is modelled at the level of JSON values: a byte slice that holds
  JSON text is represented by the value the text denotes (\<open>Doc\<close>), a byte slice that
  is not JSON text by \<open>Malformed\<close>. Numbers are the integers; the members of an
  object are kept in the order of the text.
\<close>

datatype json =
    JNull
  | JBool bool
  | JNum int
  | JStr string
  | JArr "json list"
  | JObj "(string \<times> json) list"

datatype json_text = Malformed | Doc json

text \<open>
  A Go \<open>map[string]interface{}\<close> is kept as an association list with distinct keys
  in ascending key order, the order in which \<open>json.Marshal\<close> writes a map.
  \<open>set_key k v m\<close> is the assignment \<open>m[k] = v\<close>.
\<close>

fun set_key :: "string \<Rightarrow> json \<Rightarrow> (string \<times> json) list \<Rightarrow> (string \<times> json) list" where
  "set_key k v [] = [(k, v)]"
| "set_key k v ((k', v') # m) =
     (if k = k' then (k, v) # m
      else if k < k' then (k, v) # (k', v') # m
      else (k', v') # set_key k v m)"

fun set_members :: "(string \<times> json) list \<Rightarrow> (string \<times> json) list \<Rightarrow> (string \<times> json) list" where
  "set_members m [] = m"
| "set_members m ((k, v) # members) = set_members (set_key k v m) members"

text \<open>
  \<open>json.Unmarshal\<close> into an \<open>interface{}\<close>, followed by \<open>json.Marshal\<close> of
  the result: objects become maps, so of a repeated member name the last value stays and
  the members come out in key order. (Numbers pass through \<open>float64\<close>; the model keeps
  them as they are, which is exact up to \<open>2^53\<close>.)
\<close>

primrec decode_any :: "json \<Rightarrow> json" where
  "decode_any JNull = JNull"
| "decode_any (JBool b) = JBool b"
| "decode_any (JNum n) = JNum n"
| "decode_any (JStr s) = JStr s"
| "decode_any (JArr xs) = JArr (map decode_any xs)"
| "decode_any (JObj members) = JObj (set_members [] (map (map_prod id decode_any) members))"

text \<open>
  \<open>json.Unmarshal(data, &extMap)\<close> for a non-nil \<open>map[string]interface{}\<close>:
  text that is not JSON and values that are not objects leave the map as it is and
  return an error; an object stores its members into the map; \<open>null\<close> sets the map to
  \<open>nil\<close> (\<open>None\<close>). The caller in \<open>AddToSource\<close> discards the error, so only the
  map is returned.
\<close>

fun unmarshal_map :: "json_text \<Rightarrow> (string \<times> json) list \<Rightarrow> (string \<times> json) list option" where
  "unmarshal_map Malformed m = Some m"
| "unmarshal_map (Doc JNull) m = None"
| "unmarshal_map (Doc (JObj members)) m = Some (set_members m (map (map_prod id decode_any) members))"
| "unmarshal_map (Doc _) m = Some m"

subsection \<open>Strings on the wire\<close>

text \<open>
  A Go string is a byte sequence. \<open>json.Marshal\<close> writes a string as valid UTF-8 and
  replaces every byte that does not start a well-formed UTF-8 sequence by U+FFFD
  (bytes EF BF BD). \<open>rune_size\<close> is the width \<open>utf8.DecodeRuneInString\<close> reports
  for a well-formed sequence at the head of the bytes, and 0 where it reports an
  encoding error.
\<close>

definition cont_byte :: "nat \<Rightarrow> bool" where
  "cont_byte b \<longleftrightarrow> 0x80 \<le> b \<and> b \<le> 0xBF"

fun rune_size :: "nat list \<Rightarrow> nat" where
  "rune_size [] = 0"
| "rune_size (b0 # rest) =
     (if b0 < 0x80 then 1
      else if 0xC2 \<le> b0 \<and> b0 \<le> 0xDF then
        (case rest of b1 # _ \<Rightarrow> if cont_byte b1 then 2 else 0 | _ \<Rightarrow> 0)
      else if 0xE0 \<le> b0 \<and> b0 \<le> 0xEF then
        (case rest of
           b1 # b2 # _ \<Rightarrow>
             if (if b0 = 0xE0 then 0xA0 else 0x80) \<le> b1 \<and>
                b1 \<le> (if b0 = 0xED then 0x9F else 0xBF) \<and> cont_byte b2
             then 3 else 0
         | _ \<Rightarrow> 0)
      else if 0xF0 \<le> b0 \<and> b0 \<le> 0xF4 then
        (case rest of
           b1 # b2 # b3 # _ \<Rightarrow>
             if (if b0 = 0xF0 then 0x90 else 0x80) \<le> b1 \<and>
                b1 \<le> (if b0 = 0xF4 then 0x8F else 0xBF) \<and> cont_byte b2 \<and> cont_byte b3
             then 4 else 0
         | _ \<Rightarrow> 0)
      else 0)"

function coerce_utf8 :: "string \<Rightarrow> string" where
  "coerce_utf8 s =
     (if s = [] then []
      else if rune_size (map of_char s) = 0
        then [CHR 0xEF, CHR 0xBF, CHR 0xBD] @ coerce_utf8 (tl s)
      else take (rune_size (map of_char s)) s @ coerce_utf8 (drop (rune_size (map of_char s)) s))"
  by pat_completeness auto
termination
  by (relation "measure length") auto

declare coerce_utf8.simps [simp del]

definition marshal_string :: "string \<Rightarrow> json" where
  "marshal_string s = JStr (coerce_utf8 s)"

text \<open>The strings \<open>json.Marshal\<close> writes as they are.\<close>

definition valid_utf8 :: "string \<Rightarrow> bool" where
  "valid_utf8 s \<longleftrightarrow> coerce_utf8 s = s"

subsection \<open>Go's int\<close>

text \<open>
  \<open>int\<close> is 64 bits wide on the platforms the service is built for. The fields are
  modelled as integers; \<open>go_int\<close> says that a value is one an \<open>int\<close> can hold.
\<close>

definition go_int :: "int \<Rightarrow> bool" where
  "go_int i \<longleftrightarrow> - (2 ^ 63) \<le> i \<and> i < 2 ^ 63"

section \<open>Auction engine (backend/pkg/ssp.go)\<close>

text \<open>
  Go structs are records. Field names carry the struct's name as a prefix, because
  several structs share field names (\<open>ID\<close>, \<open>Bid\<close>, \<open>Name\<close>). Of the
  OpenRTB \<open>Bid\<close> struct the fields the auction and the renderers read are
  modelled; no function modelled here reads or writes the others.

  Prices are \<open>float64\<close> in the source. \<open>RunAuction\<close> only compares prices
  (\<open>>=\<close>, \<open>>\<close>, \<open><\<close>) and never computes with them, so a price is modelled
  as a real number with the usual order. A NaN price or floor makes the admission test
  \<open>bid.Price >= placement.MinBidFloor\<close> false, so no NaN ever reaches the ranking.
\<close>

record Bid =
  Bid_ID :: string
  Bid_ImpID :: string
  Bid_Price :: real
  Bid_ADM :: string
  Bid_DealID :: string

record SeatBid =
  SeatBid_Bid :: "Bid list"
  SeatBid_Seat :: string

record BidResponse =
  BidResponse_ID :: string
  BidResponse_SeatBid :: "SeatBid list"

record DemandPartner =
  DemandPartner_ID :: string
  DemandPartner_Name :: string
  DemandPartner_Endpoint :: string
  DemandPartner_Active :: bool

record Format =
  Format_W :: int
  Format_H :: int

record VideoSettings =
  VideoSettings_Mimes :: "string list"
  VideoSettings_MinDuration :: int
  VideoSettings_MaxDuration :: int
  VideoSettings_Protocols :: "int list"
  VideoSettings_Linearity :: int
  VideoSettings_StartDelay :: int
  VideoSettings_PlaybackMethod :: "int list"
  VideoSettings_API :: "int list"

record Placement =
  Placement_ID :: string
  Placement_SiteID :: string
  Placement_Name :: string
  Placement_AdType :: string
  Placement_Width :: int
  Placement_Height :: int
  Placement_MinBidFloor :: real
  Placement_Active :: bool
  Placement_Formats :: "Format list"
  Placement_Video :: "VideoSettings option"

text \<open>
  The Go struct \<open>BidWithPartner\<close> holds a pointer to a bid. \<open>RunAuction\<close> fills
  it with \<open>&bid\<close>, the address of the range variable of its innermost loop, so what
  an entry refers to depends on how many variables that loop has. The variables live in
  a heap, a list of bids indexed by address; \<open>BidWithPartnerRef\<close> is the struct as
  the code stores it, with the address, and \<open>BidWithPartner\<close> is an entry read
  through its pointer, with the bid found at the address.
\<close>

record BidWithPartnerRef =
  Ref_Bid :: nat
  Ref_Partner :: DemandPartner

record BidWithPartner =
  BWP_Bid :: Bid
  BWP_Partner :: DemandPartner

record AuctionResult =
  WinningBid :: Bid
  WinningPartner :: DemandPartner
  AllBids :: "BidWithPartner list"
  AuctionType :: int
  ClearedPrice :: real

text \<open>
  The language defines the range variable in two ways, and the sources do not say which
  one applies (the language version is fixed by the module file, which sets it for the
  compiler). From Go 1.22 on every iteration has a variable of its own. Before Go 1.22
  one variable is declared when the \<open>for\<close> statement starts and every iteration
  assigns to it.
\<close>

datatype loop_semantics = PerIteration | SharedVariable

definition zero_Bid :: Bid where
  "zero_Bid = \<lparr>Bid_ID = [], Bid_ImpID = [], Bid_Price = 0, Bid_ADM = [], Bid_DealID = []\<rparr>"

text \<open>
  The innermost loop, \<open>for _, bid := range seatBid.Bid\<close>, on the pair of the heap
  and the slice \<open>allBids\<close>. With a variable per iteration, each iteration allocates
  a variable holding the current bid, at the next free address. With a shared variable
  at address \<open>x\<close>, each iteration stores the current bid there. In both, a bid whose
  price reaches the floor appends an entry with the address of the variable.
\<close>

fun collect_bid_loop_per_iteration ::
  "DemandPartner \<Rightarrow> Placement \<Rightarrow> Bid list \<Rightarrow> Bid list \<times> BidWithPartnerRef list
     \<Rightarrow> Bid list \<times> BidWithPartnerRef list" where
  "collect_bid_loop_per_iteration partner placement [] s = s"
| "collect_bid_loop_per_iteration partner placement (bid # bids) (heap, allBids) =
     collect_bid_loop_per_iteration partner placement bids
       (heap @ [bid],
        if Bid_Price bid \<ge> Placement_MinBidFloor placement
        then allBids @ [\<lparr>Ref_Bid = length heap, Ref_Partner = partner\<rparr>]
        else allBids)"

fun collect_bid_loop_shared ::
  "nat \<Rightarrow> DemandPartner \<Rightarrow> Placement \<Rightarrow> Bid list \<Rightarrow> Bid list \<times> BidWithPartnerRef list
     \<Rightarrow> Bid list \<times> BidWithPartnerRef list" where
  "collect_bid_loop_shared x partner placement [] s = s"
| "collect_bid_loop_shared x partner placement (bid # bids) (heap, allBids) =
     collect_bid_loop_shared x partner placement bids
       (heap[x := bid],
        if Bid_Price bid \<ge> Placement_MinBidFloor placement
        then allBids @ [\<lparr>Ref_Bid = x, Ref_Partner = partner\<rparr>]
        else allBids)"

text \<open>
  One execution of the innermost \<open>for\<close> statement. With a shared variable the
  statement first declares the variable, at the next free address, with the zero value.
\<close>

definition collect_bid_loop ::
  "loop_semantics \<Rightarrow> DemandPartner \<Rightarrow> Placement \<Rightarrow> Bid list
     \<Rightarrow> Bid list \<times> BidWithPartnerRef list \<Rightarrow> Bid list \<times> BidWithPartnerRef list" where
  "collect_bid_loop sem partner placement bids s =
     (case sem of
        PerIteration \<Rightarrow> collect_bid_loop_per_iteration partner placement bids s
      | SharedVariable \<Rightarrow>
          collect_bid_loop_shared (length (fst s)) partner placement bids
            (fst s @ [zero_Bid], snd s))"

text \<open>
  The two outer loops, \<open>for _, seatBid := range response.SeatBid\<close> and
  \<open>for partner, response := range responses\<close>. Their variables are used by value.
  The map \<open>responses\<close> is keyed by partner pointers; Go ranges over a map in an
  unspecified order. The model takes the entries as a list in the order the range
  visits them; a \<open>nil\<close> response is \<open>None\<close>. Two entries may hold equal
  partners, as two pointers may point to equal structs.
\<close>

fun collect_seatbid_loop ::
  "loop_semantics \<Rightarrow> DemandPartner \<Rightarrow> Placement \<Rightarrow> SeatBid list
     \<Rightarrow> Bid list \<times> BidWithPartnerRef list \<Rightarrow> Bid list \<times> BidWithPartnerRef list" where
  "collect_seatbid_loop sem partner placement [] s = s"
| "collect_seatbid_loop sem partner placement (seatBid # seatBids) s =
     collect_seatbid_loop sem partner placement seatBids
       (collect_bid_loop sem partner placement (SeatBid_Bid seatBid) s)"

fun collect_response_loop ::
  "loop_semantics \<Rightarrow> (DemandPartner \<times> BidResponse option) list \<Rightarrow> Placement
     \<Rightarrow> Bid list \<times> BidWithPartnerRef list \<Rightarrow> Bid list \<times> BidWithPartnerRef list" where
  "collect_response_loop sem [] placement s = s"
| "collect_response_loop sem ((partner, None) # responses) placement s =
     collect_response_loop sem responses placement s"
| "collect_response_loop sem ((partner, Some response) # responses) placement s =
     collect_response_loop sem responses placement
       (collect_seatbid_loop sem partner placement (BidResponse_SeatBid response) s)"

text \<open>
  The sort: \<open>for i := 0; i < len-1; i++ { for j := i+1; j < len; j++ { if
  allBids[j].Bid.Price > allBids[i].Bid.Price { swap } } }\<close>. Both loops are recursions
  on the index; the swap is a pair of list updates. The argument \<open>price\<close> is the
  reading \<open>.Bid.Price\<close> of an entry.
\<close>

function sort_inner_loop :: "('a \<Rightarrow> real) \<Rightarrow> nat \<Rightarrow> nat \<Rightarrow> 'a list \<Rightarrow> 'a list" where
  "sort_inner_loop price i j allBids =
     (if j < length allBids
      then sort_inner_loop price i (j + 1)
             (if price (allBids ! j) > price (allBids ! i)
              then allBids[i := allBids ! j, j := allBids ! i]
              else allBids)
      else allBids)"
  by pat_completeness auto
termination
  by (relation "measure (\<lambda>(price, i, j, allBids). length allBids - j)") auto

function sort_outer_loop :: "('a \<Rightarrow> real) \<Rightarrow> nat \<Rightarrow> 'a list \<Rightarrow> 'a list" where
  "sort_outer_loop price i allBids =
     (if int i < int (length allBids) - 1
      then sort_outer_loop price (i + 1) (sort_inner_loop price i (i + 1) allBids)
      else allBids)"
  by pat_completeness auto

text \<open>
  The outer loop terminates because the inner loop returns a list of the same length.
\<close>

declare sort_inner_loop.simps [simp del]

lemma length_sort_inner_loop [simp]: "length (sort_inner_loop pr i j a) = length a"
proof (induction pr i j a rule: sort_inner_loop.induct)
  case (1 pr i j a)
  show ?case
  proof (cases "j < length a")
    case True
    with 1 show ?thesis by (subst sort_inner_loop.simps) simp
  next
    case False
    then show ?thesis by (subst sort_inner_loop.simps) simp
  qed
qed

termination sort_outer_loop
  by (relation "measure (\<lambda>(pr, i, a). length a - i)") auto

declare sort_outer_loop.simps [simp del]

text \<open>Reading an entry through its pointer, and the price found there.\<close>

definition deref :: "Bid list \<Rightarrow> BidWithPartnerRef \<Rightarrow> BidWithPartner" where
  "deref heap e = \<lparr>BWP_Bid = heap ! Ref_Bid e, BWP_Partner = Ref_Partner e\<rparr>"

definition ref_price :: "Bid list \<Rightarrow> BidWithPartnerRef \<Rightarrow> real" where
  "ref_price heap e = Bid_Price (heap ! Ref_Bid e)"

definition bwp_price :: "BidWithPartner \<Rightarrow> real" where
  "bwp_price b = Bid_Price (BWP_Bid b)"

text \<open>
  \<open>RunAuction\<close> returns \<open>(nil, nil)\<close> when no bid is admitted and a result
  with a nil error otherwise; \<open>None\<close> is the nil result. The receiver's
  \<open>minBidFloor\<close> is not read. The placement is dereferenced without a nil check;
  the callers pass a placement they have looked up, and the model takes it by value.
  The loop variables are written by the collection loops only, so the result is given
  as its reader finds it: the winning bid and the entries of \<open>AllBids\<close> read through
  their pointers.
\<close>

definition RunAuction ::
  "loop_semantics \<Rightarrow> (DemandPartner \<times> BidResponse option) list \<Rightarrow> Placement
     \<Rightarrow> AuctionResult option" where
  "RunAuction sem responses placement =
     (let (heap, allBids) = collect_response_loop sem responses placement ([], []) in
      if length allBids = 0 then None
      else
        let allBids = sort_outer_loop (ref_price heap) 0 allBids;
            winner = allBids ! 0;
            clearedPrice = Placement_MinBidFloor placement;
            clearedPrice = (if length allBids > 1 then ref_price heap (allBids ! 1)
                            else clearedPrice);
            clearedPrice = (if clearedPrice < Placement_MinBidFloor placement
                            then Placement_MinBidFloor placement else clearedPrice)
        in Some \<lparr>WinningBid = heap ! Ref_Bid winner,
                  WinningPartner = Ref_Partner winner,
                  AllBids = map (deref heap) allBids,
                  AuctionType = 2,
                  ClearedPrice = clearedPrice\<rparr>)"

text \<open>
  The slice \<open>allBids\<close> when the collection loops have finished, each entry read
  through its pointer.
\<close>

definition collected_bids ::
  "loop_semantics \<Rightarrow> (DemandPartner \<times> BidResponse option) list \<Rightarrow> Placement
     \<Rightarrow> BidWithPartner list" where
  "collected_bids sem responses placement =
     map (deref (fst (collect_response_loop sem responses placement ([], []))))
         (snd (collect_response_loop sem responses placement ([], [])))"

subsection \<open>Specification vocabulary for the auction\<close>

text \<open>
  The specification's flattening step: every bid of every seat bid of every non-nil
  response, tagged with the partner the response came from.
\<close>

definition tag_bids :: "DemandPartner \<Rightarrow> BidResponse \<Rightarrow> BidWithPartner list" where
  "tag_bids partner response =
     concat (map (\<lambda>seatBid. map (\<lambda>bid. \<lparr>BWP_Bid = bid, BWP_Partner = partner\<rparr>) (SeatBid_Bid seatBid))
                 (BidResponse_SeatBid response))"

definition flatten_entry :: "DemandPartner \<times> BidResponse option \<Rightarrow> BidWithPartner list" where
  "flatten_entry e = (case snd e of None \<Rightarrow> [] | Some response \<Rightarrow> tag_bids (fst e) response)"

definition flatten_responses ::
  "(DemandPartner \<times> BidResponse option) list \<Rightarrow> BidWithPartner list" where
  "flatten_responses responses = concat (map flatten_entry responses)"

text \<open>
  The bids the specification admits: the flattened bids whose price is at or above the
  placement's floor.
\<close>

definition admitted_bids ::
  "(DemandPartner \<times> BidResponse option) list \<Rightarrow> Placement \<Rightarrow> BidWithPartner list" where
  "admitted_bids responses placement =
     filter (\<lambda>b. Placement_MinBidFloor placement \<le> bwp_price b) (flatten_responses responses)"

text \<open>The price of the second-highest bid of a list of prices with at least two entries.\<close>

definition second_highest :: "real list \<Rightarrow> real" where
  "second_highest ps = rev (sort ps) ! 1"

text \<open>
  Invariant of the outer sorting loop: every position before \<open>i\<close> holds a bid whose
  price is at least the price of every bid at a later position.
\<close>

definition dominated :: "('a \<Rightarrow> real) \<Rightarrow> nat \<Rightarrow> 'a list \<Rightarrow> bool" where
  "dominated pr i a \<longleftrightarrow>
     (\<forall>k l. k < i \<and> k < l \<and> l < length a \<longrightarrow> pr (a ! l) \<le> pr (a ! k))"

text \<open>
  What the entries appended for one seat bid read as once its loop has finished. With a
  variable per iteration they are the bids that reached the floor; with a shared
  variable there are as many entries, and each reads as the last bid of the seat bid,
  the last value assigned to the variable.
\<close>

definition seat_view :: "loop_semantics \<Rightarrow> DemandPartner \<Rightarrow> Placement \<Rightarrow> Bid list \<Rightarrow> BidWithPartner list" where
  "seat_view sem partner placement bids =
     (case sem of
        PerIteration \<Rightarrow>
          map (\<lambda>bid. \<lparr>BWP_Bid = bid, BWP_Partner = partner\<rparr>)
              (filter (\<lambda>bid. Placement_MinBidFloor placement \<le> Bid_Price bid) bids)
      | SharedVariable \<Rightarrow>
          replicate (length (filter (\<lambda>bid. Placement_MinBidFloor placement \<le> Bid_Price bid) bids))
                    \<lparr>BWP_Bid = last bids, BWP_Partner = partner\<rparr>)"

definition entry_view :: "loop_semantics \<Rightarrow> Placement \<Rightarrow> DemandPartner \<times> BidResponse option \<Rightarrow> BidWithPartner list" where
  "entry_view sem placement e =
     (case snd e of
        None \<Rightarrow> []
      | Some response \<Rightarrow>
          concat (map (\<lambda>seatBid. seat_view sem (fst e) placement (SeatBid_Bid seatBid))
                      (BidResponse_SeatBid response)))"

text \<open>Every pointer of a list of entries is an address of the heap.\<close>

definition refs_ok :: "Bid list \<Rightarrow> BidWithPartnerRef list \<Rightarrow> bool" where
  "refs_ok heap a \<longleftrightarrow> (\<forall>e\<in>set a. Ref_Bid e < length heap)"

text \<open>A heap that has grown keeps what the earlier addresses held.\<close>

definition extends :: "Bid list \<Rightarrow> Bid list \<Rightarrow> bool" where
  "extends h h' \<longleftrightarrow> length h \<le> length h' \<and> (\<forall>i<length h. h' ! i = h ! i)"

text \<open>
  Rewriting the deal id of every bid by a function \<open>f\<close>: in a bid, in the responses
  handed to the auction, and in a result.
\<close>

definition relabel_bid :: "(string \<Rightarrow> string) \<Rightarrow> Bid \<Rightarrow> Bid" where
  "relabel_bid f b = b\<lparr>Bid_DealID := f (Bid_DealID b)\<rparr>"

definition relabel_seatbid :: "(string \<Rightarrow> string) \<Rightarrow> SeatBid \<Rightarrow> SeatBid" where
  "relabel_seatbid f sb = sb\<lparr>SeatBid_Bid := map (relabel_bid f) (SeatBid_Bid sb)\<rparr>"

definition relabel_response :: "(string \<Rightarrow> string) \<Rightarrow> BidResponse \<Rightarrow> BidResponse" where
  "relabel_response f r =
     r\<lparr>BidResponse_SeatBid := map (relabel_seatbid f) (BidResponse_SeatBid r)\<rparr>"

definition relabel_entry ::
  "(string \<Rightarrow> string) \<Rightarrow> DemandPartner \<times> BidResponse option \<Rightarrow> DemandPartner \<times> BidResponse option" where
  "relabel_entry f e = (fst e, map_option (relabel_response f) (snd e))"

definition relabel_bwp :: "(string \<Rightarrow> string) \<Rightarrow> BidWithPartner \<Rightarrow> BidWithPartner" where
  "relabel_bwp f e = e\<lparr>BWP_Bid := relabel_bid f (BWP_Bid e)\<rparr>"

definition relabel_result :: "(string \<Rightarrow> string) \<Rightarrow> AuctionResult \<Rightarrow> AuctionResult" where
  "relabel_result f r =
     r\<lparr>WinningBid := relabel_bid f (WinningBid r), AllBids := map (relabel_bwp f) (AllBids r)\<rparr>"

subsection \<open>Fixtures of the auction tests\<close>

text \<open>
  The values \<open>TestAuctionEngine\<close> builds: two partners, one-seat responses and a
  placement, with the price, the deal id and the floor left open.
\<close>

definition partner1 :: DemandPartner where
  "partner1 = \<lparr>DemandPartner_ID = ''partner-1'', DemandPartner_Name = ''Partner 1'',
               DemandPartner_Endpoint = [], DemandPartner_Active = False\<rparr>"

definition partner2 :: DemandPartner where
  "partner2 = \<lparr>DemandPartner_ID = ''partner-2'', DemandPartner_Name = ''Partner 2'',
               DemandPartner_Endpoint = [], DemandPartner_Active = False\<rparr>"

definition test_placement :: "real \<Rightarrow> Placement" where
  "test_placement fl = \<lparr>Placement_ID = ''placement-1'', Placement_SiteID = [], Placement_Name = [],
     Placement_AdType = [], Placement_Width = 0, Placement_Height = 0,
     Placement_MinBidFloor = fl, Placement_Active = False, Placement_Formats = [],
     Placement_Video = None\<rparr>"

definition test_bid :: "string \<Rightarrow> real \<Rightarrow> string \<Rightarrow> Bid" where
  "test_bid bid_id price dealid = \<lparr>Bid_ID = bid_id, Bid_ImpID = ''imp-1'', Bid_Price = price,
     Bid_ADM = [], Bid_DealID = dealid\<rparr>"

definition test_response :: "string \<Rightarrow> Bid list \<Rightarrow> BidResponse" where
  "test_response resp_id bids = \<lparr>BidResponse_ID = resp_id,
     BidResponse_SeatBid = [\<lparr>SeatBid_Bid = bids, SeatBid_Seat = []\<rparr>]\<rparr>"

lemmas test_defs = partner1_def partner2_def test_placement_def test_bid_def test_response_def

section \<open>Supply chain (the source file tested by backend/pkg/supply_chain_test.go)\<close>

text \<open>
  \<open>Nodes\<close> is a slice that travels through JSON, where a \<open>nil\<close> slice
  (\<open>null\<close>) and an empty one (\<open>[]\<close>) differ: \<open>None\<close> is the \<open>nil\<close> slice.
  \<open>slice_elems\<close> gives the elements, \<open>len\<close> and \<open>range\<close> see nothing else.
\<close>

record SupplyChainNode =
  Node_ASI :: string
  Node_SID :: string
  Node_HP :: int
  Node_RID :: string
  Node_Name :: string
  Node_Domain :: string

record SupplyChain =
  SupplyChain_Complete :: int
  SupplyChain_Nodes :: "SupplyChainNode list option"
  SupplyChain_Ver :: string

record SupplyChainBuilder =
  ourASI :: string
  ourSID :: string
  ourName :: string
  ourDomain :: string

definition slice_elems :: "'a list option \<Rightarrow> 'a list" where
  "slice_elems s = (case s of None \<Rightarrow> [] | Some xs \<Rightarrow> xs)"

definition NewSupplyChainBuilder :: "string \<Rightarrow> string \<Rightarrow> string \<Rightarrow> string \<Rightarrow> SupplyChainBuilder" where
  "NewSupplyChainBuilder asi sid name domain =
     \<lparr>ourASI = asi, ourSID = sid, ourName = name, ourDomain = domain\<rparr>"

definition BuildForPublisher :: "SupplyChainBuilder \<Rightarrow> string \<Rightarrow> string \<Rightarrow> error + SupplyChain" where
  "BuildForPublisher b publisherID publisherDomain =
     (if publisherID = [] then Inl PublisherIDRequired
      else Inr \<lparr>SupplyChain_Complete = 1,
                SupplyChain_Nodes = Some [\<lparr>Node_ASI = ourASI b, Node_SID = publisherID, Node_HP = 0,
                                           Node_RID = [], Node_Name = ourName b,
                                           Node_Domain = publisherDomain\<rparr>],
                SupplyChain_Ver = ''1.0''\<rparr>)"

definition BuildForIntermediary ::
  "SupplyChainBuilder \<Rightarrow> string \<Rightarrow> string \<Rightarrow> SupplyChainNode list \<Rightarrow> error + SupplyChain" where
  "BuildForIntermediary b publisherID publisherDomain intermediaries =
     (if publisherID = [] then Inl PublisherIDRequired
      else
        let nodes = [] @ intermediaries;
            nodes = nodes @ [\<lparr>Node_ASI = ourASI b, Node_SID = publisherID, Node_HP = 0,
                              Node_RID = [], Node_Name = ourName b,
                              Node_Domain = publisherDomain\<rparr>]
        in Inr \<lparr>SupplyChain_Complete = 1, SupplyChain_Nodes = Some nodes,
                 SupplyChain_Ver = ''1.0''\<rparr>)"

definition BuildIncomplete :: "SupplyChainBuilder \<Rightarrow> string \<Rightarrow> error + SupplyChain" where
  "BuildIncomplete b publisherID =
     (if publisherID = [] then Inl PublisherIDRequired
      else Inr \<lparr>SupplyChain_Complete = 0,
                SupplyChain_Nodes = Some [\<lparr>Node_ASI = ourASI b, Node_SID = publisherID, Node_HP = 0,
                                           Node_RID = [], Node_Name = [], Node_Domain = []\<rparr>],
                SupplyChain_Ver = ''1.0''\<rparr>)"

definition validateNode :: "SupplyChainNode \<Rightarrow> error + unit" where
  "validateNode node =
     (if Node_ASI node = [] then Inl ASIRequired
      else if Node_SID node = [] then Inl SIDRequired
      else if Node_HP node \<noteq> 0 \<and> Node_HP node \<noteq> 1 then Inl (HPInvalid (Node_HP node))
      else Inr ())"

text \<open>The loop \<open>for i, node := range schain.Nodes\<close>, started at index \<open>i\<close>.\<close>

fun validate_nodes_loop :: "nat \<Rightarrow> SupplyChainNode list \<Rightarrow> error + unit" where
  "validate_nodes_loop i [] = Inr ()"
| "validate_nodes_loop i (node # nodes) =
     (case validateNode node of
        Inl err \<Rightarrow> Inl (NodeError i err)
      | Inr _ \<Rightarrow> validate_nodes_loop (i + 1) nodes)"

text \<open>The argument is a pointer: \<open>None\<close> is the \<open>nil\<close> pointer.\<close>

definition ValidateSupplyChain :: "SupplyChain option \<Rightarrow> error + unit" where
  "ValidateSupplyChain schain =
     (case schain of
        None \<Rightarrow> Inl SupplyChainIsNil
      | Some s \<Rightarrow>
          if length (slice_elems (SupplyChain_Nodes s)) = 0 then Inl NoNodes
          else if SupplyChain_Ver s = [] then Inl VersionRequired
          else validate_nodes_loop 0 (slice_elems (SupplyChain_Nodes s)))"

subsection \<open>ToJSON and FromJSON\<close>

text \<open>
  \<open>json.Marshal\<close> of the two structs, by their field tags: \<open>asi\<close> and \<open>sid\<close>
  are always written, \<open>hp\<close>, \<open>rid\<close>, \<open>name\<close> and \<open>domain\<close> carry
  \<open>omitempty\<close> and are left out at their zero value. Marshalling these types cannot
  fail, so \<open>ToJSON\<close> returns the document.
\<close>

definition marshal_node :: "SupplyChainNode \<Rightarrow> json" where
  "marshal_node n =
     JObj ([(''asi'', marshal_string (Node_ASI n)), (''sid'', marshal_string (Node_SID n))]
           @ (if Node_HP n = 0 then [] else [(''hp'', JNum (Node_HP n))])
           @ (if Node_RID n = [] then [] else [(''rid'', marshal_string (Node_RID n))])
           @ (if Node_Name n = [] then [] else [(''name'', marshal_string (Node_Name n))])
           @ (if Node_Domain n = [] then [] else [(''domain'', marshal_string (Node_Domain n))]))"

definition ToJSON :: "SupplyChain \<Rightarrow> json_text" where
  "ToJSON s =
     Doc (JObj [(''complete'', JNum (SupplyChain_Complete s)),
                (''nodes'', (case SupplyChain_Nodes s of
                               None \<Rightarrow> JNull
                             | Some ns \<Rightarrow> JArr (map marshal_node ns))),
                (''ver'', marshal_string (SupplyChain_Ver s))])"

text \<open>
  \<open>json.Unmarshal\<close> into the structs. The members of an object are taken in order;
  a member whose name is a field's tag, in any letter case, is decoded into that field
  and any other member is skipped. \<open>null\<close> leaves a string or an int as it is and
  sets a slice to \<open>nil\<close>; a value of the wrong JSON type, or a number an \<open>int\<close>
  cannot hold, is an error. Each element of an array is decoded into a zero node.
\<close>

definition lower_char :: "char \<Rightarrow> char" where
  "lower_char c =
     (if (65::nat) \<le> of_char c \<and> of_char c \<le> (90::nat) then char_of (of_char c + (32::nat)) else c)"

definition tag_matches :: "string \<Rightarrow> string \<Rightarrow> bool" where
  "tag_matches tag k \<longleftrightarrow> map lower_char k = tag"

definition decode_int :: "json \<Rightarrow> int \<Rightarrow> error + int" where
  "decode_int v old =
     (case v of
        JNull \<Rightarrow> Inr old
      | JNum i \<Rightarrow> if go_int i then Inr i else Inl UnmarshalTypeError
      | _ \<Rightarrow> Inl UnmarshalTypeError)"

definition decode_string :: "json \<Rightarrow> string \<Rightarrow> error + string" where
  "decode_string v old =
     (case v of
        JNull \<Rightarrow> Inr old
      | JStr s \<Rightarrow> Inr s
      | _ \<Rightarrow> Inl UnmarshalTypeError)"

definition zero_node :: SupplyChainNode where
  "zero_node = \<lparr>Node_ASI = [], Node_SID = [], Node_HP = 0, Node_RID = [], Node_Name = [],
                Node_Domain = []\<rparr>"

fun decode_node_members :: "(string \<times> json) list \<Rightarrow> SupplyChainNode \<Rightarrow> error + SupplyChainNode" where
  "decode_node_members [] n = Inr n"
| "decode_node_members ((k, v) # members) n =
     (if tag_matches ''asi'' k then
        (case decode_string v (Node_ASI n) of
           Inl e \<Rightarrow> Inl e | Inr s \<Rightarrow> decode_node_members members (n\<lparr>Node_ASI := s\<rparr>))
      else if tag_matches ''sid'' k then
        (case decode_string v (Node_SID n) of
           Inl e \<Rightarrow> Inl e | Inr s \<Rightarrow> decode_node_members members (n\<lparr>Node_SID := s\<rparr>))
      else if tag_matches ''hp'' k then
        (case decode_int v (Node_HP n) of
           Inl e \<Rightarrow> Inl e | Inr i \<Rightarrow> decode_node_members members (n\<lparr>Node_HP := i\<rparr>))
      else if tag_matches ''rid'' k then
        (case decode_string v (Node_RID n) of
           Inl e \<Rightarrow> Inl e | Inr s \<Rightarrow> decode_node_members members (n\<lparr>Node_RID := s\<rparr>))
      else if tag_matches ''name'' k then
        (case decode_string v (Node_Name n) of
           Inl e \<Rightarrow> Inl e | Inr s \<Rightarrow> decode_node_members members (n\<lparr>Node_Name := s\<rparr>))
      else if tag_matches ''domain'' k then
        (case decode_string v (Node_Domain n) of
           Inl e \<Rightarrow> Inl e | Inr s \<Rightarrow> decode_node_members members (n\<lparr>Node_Domain := s\<rparr>))
      else decode_node_members members n)"

definition decode_node :: "json \<Rightarrow> error + SupplyChainNode" where
  "decode_node v =
     (case v of
        JNull \<Rightarrow> Inr zero_node
      | JObj members \<Rightarrow> decode_node_members members zero_node
      | _ \<Rightarrow> Inl UnmarshalTypeError)"

fun decode_nodes :: "json list \<Rightarrow> error + SupplyChainNode list" where
  "decode_nodes [] = Inr []"
| "decode_nodes (v # vs) =
     (case decode_node v of
        Inl e \<Rightarrow> Inl e
      | Inr n \<Rightarrow> (case decode_nodes vs of Inl e \<Rightarrow> Inl e | Inr ns \<Rightarrow> Inr (n # ns)))"

definition decode_slice :: "json \<Rightarrow> error + SupplyChainNode list option" where
  "decode_slice v =
     (case v of
        JNull \<Rightarrow> Inr None
      | JArr vs \<Rightarrow> (case decode_nodes vs of Inl e \<Rightarrow> Inl e | Inr ns \<Rightarrow> Inr (Some ns))
      | _ \<Rightarrow> Inl UnmarshalTypeError)"

fun decode_chain_members :: "(string \<times> json) list \<Rightarrow> SupplyChain \<Rightarrow> error + SupplyChain" where
  "decode_chain_members [] s = Inr s"
| "decode_chain_members ((k, v) # members) s =
     (if tag_matches ''complete'' k then
        (case decode_int v (SupplyChain_Complete s) of
           Inl e \<Rightarrow> Inl e
         | Inr i \<Rightarrow> decode_chain_members members (s\<lparr>SupplyChain_Complete := i\<rparr>))
      else if tag_matches ''nodes'' k then
        (case decode_slice v of
           Inl e \<Rightarrow> Inl e
         | Inr ns \<Rightarrow> decode_chain_members members (s\<lparr>SupplyChain_Nodes := ns\<rparr>))
      else if tag_matches ''ver'' k then
        (case decode_string v (SupplyChain_Ver s) of
           Inl e \<Rightarrow> Inl e
         | Inr x \<Rightarrow> decode_chain_members members (s\<lparr>SupplyChain_Ver := x\<rparr>))
      else decode_chain_members members s)"

definition zero_chain :: SupplyChain where
  "zero_chain = \<lparr>SupplyChain_Complete = 0, SupplyChain_Nodes = None, SupplyChain_Ver = []\<rparr>"

definition FromJSON :: "json_text \<Rightarrow> error + SupplyChain" where
  "FromJSON data =
     (case data of
        Malformed \<Rightarrow> Inl SyntaxError
      | Doc JNull \<Rightarrow> Inr zero_chain
      | Doc (JObj members) \<Rightarrow> decode_chain_members members zero_chain
      | Doc _ \<Rightarrow> Inl UnmarshalTypeError)"

subsection \<open>AddToSource\<close>

text \<open>
  \<open>Source.Ext\<close> is an \<open>interface{}\<close>. Its dynamic type decides what
  \<open>AddToSource\<close> does: \<open>nil\<close>, a \<open>string\<close>, a \<open>[]byte\<close>, a
  \<open>json.RawMessage\<close> (a named type of its own, so the type assertion to
  \<open>[]byte\<close> does not hold for it), or a \<open>map[string]interface{}\<close>, which is what
  decoding a bid request from JSON puts there.
\<close>

datatype ext_value =
    ExtNil
  | ExtString json_text
  | ExtBytes json_text
  | ExtRawMessage json_text
  | ExtMap "(string \<times> json) list"

record Source =
  Source_FD :: int
  Source_TID :: string
  Source_PChain :: string
  Source_Ext :: ext_value

text \<open>
  The existing \<open>ext\<close> as the map \<open>extMap\<close> holds it before \<open>schain\<close> is
  stored: parsed from a string or a byte slice, empty for every other dynamic type.
  \<open>None\<close> is the \<open>nil\<close> map that unmarshalling \<open>null\<close> leaves behind.
\<close>

definition parse_existing_ext :: "ext_value \<Rightarrow> (string \<times> json) list option" where
  "parse_existing_ext ext =
     (case ext of
        ExtNil \<Rightarrow> Some []
      | ExtString extStr \<Rightarrow> unmarshal_map extStr []
      | ExtBytes extBytes \<Rightarrow> unmarshal_map extBytes []
      | ExtRawMessage _ \<Rightarrow> Some []
      | ExtMap _ \<Rightarrow> Some [])"

definition text_any :: "json_text \<Rightarrow> json" where
  "text_any t = (case t of Malformed \<Rightarrow> JNull | Doc j \<Rightarrow> decode_any j)"

text \<open>
  \<open>AddToSource\<close> assigns to \<open>source.Ext\<close> as its last step, so the model returns
  the source as it is after a successful call and the error otherwise, in which case the
  source is as it was. Assigning to a key of a \<open>nil\<close> map panics.
\<close>

definition AddToSource :: "Source option \<Rightarrow> SupplyChain option \<Rightarrow> error + Source" where
  "AddToSource source schain =
     (case source of
        None \<Rightarrow> Inl SourceIsNil
      | Some src \<Rightarrow>
          (case schain of
             None \<Rightarrow> Inl SupplyChainIsNil
           | Some s \<Rightarrow>
               (case ValidateSupplyChain (Some s) of
                  Inl err \<Rightarrow> Inl (InvalidSupplyChain err)
                | Inr _ \<Rightarrow>
                    let schainJSON = ToJSON s;
                        schainObj = text_any schainJSON
                    in (case parse_existing_ext (Source_Ext src) of
                          None \<Rightarrow> Inl NilMapPanic
                        | Some extMap \<Rightarrow>
                            Inr (src\<lparr>Source_Ext :=
                                   ExtRawMessage (Doc (JObj (set_key ''schain'' schainObj extMap)))\<rparr>)))))"

subsection \<open>Vocabulary for the claims about supply chains\<close>

text \<open>
  What the specification requires of a node, and the supply chains whose values pass
  through JSON text as they are: every \<open>int\<close> fits an \<open>int\<close> and every string is
  valid UTF-8.
\<close>

definition node_ok :: "SupplyChainNode \<Rightarrow> bool" where
  "node_ok n \<longleftrightarrow> Node_ASI n \<noteq> [] \<and> Node_SID n \<noteq> [] \<and> (Node_HP n = 0 \<or> Node_HP n = 1)"

definition wire_safe_node :: "SupplyChainNode \<Rightarrow> bool" where
  "wire_safe_node n \<longleftrightarrow>
     go_int (Node_HP n) \<and> valid_utf8 (Node_ASI n) \<and> valid_utf8 (Node_SID n) \<and>
     valid_utf8 (Node_RID n) \<and> valid_utf8 (Node_Name n) \<and> valid_utf8 (Node_Domain n)"

definition wire_safe :: "SupplyChain \<Rightarrow> bool" where
  "wire_safe s \<longleftrightarrow>
     go_int (SupplyChain_Complete s) \<and> valid_utf8 (SupplyChain_Ver s) \<and>
     list_all wire_safe_node (slice_elems (SupplyChain_Nodes s))"

subsection \<open>Fixtures of the supply chain tests\<close>

text \<open>
  The node and the chains of \<open>TestValidateSupplyChain\<close> (valid, missing version, empty
  nodes), the builder of \<open>TestBuildForIntermediary\<close> and the source of
  \<open>TestAddToSource\<close>.
\<close>

definition test_node :: SupplyChainNode where
  "test_node = \<lparr>Node_ASI = ''test.com'', Node_SID = ''test-001'', Node_HP = 0, Node_RID = [],
                Node_Name = [], Node_Domain = []\<rparr>"

definition valid_chain :: SupplyChain where
  "valid_chain = \<lparr>SupplyChain_Complete = 1, SupplyChain_Nodes = Some [test_node],
                  SupplyChain_Ver = ''1.0''\<rparr>"

definition missing_version_chain :: SupplyChain where
  "missing_version_chain = \<lparr>SupplyChain_Complete = 1, SupplyChain_Nodes = Some [test_node],
                            SupplyChain_Ver = []\<rparr>"

definition empty_nodes_chain :: SupplyChain where
  "empty_nodes_chain = \<lparr>SupplyChain_Complete = 1, SupplyChain_Nodes = Some [],
                        SupplyChain_Ver = ''1.0''\<rparr>"

definition test_builder :: SupplyChainBuilder where
  "test_builder = NewSupplyChainBuilder ''ad.nexus'' ''ssp-001'' ''AdNexus'' ''ad.nexus''"

definition test_source :: "ext_value \<Rightarrow> Source" where
  "test_source ext = \<lparr>Source_FD = 1, Source_TID = ''txn-001'', Source_PChain = [],
                      Source_Ext = ext\<rparr>"

section \<open>Bid-request builder (backend/pkg/ssp.go)\<close>

text \<open>
  The catalog records the builder reads and the OpenRTB structs it fills in. A pointer
  field is an option, \<open>None\<close> for \<open>nil\<close>. Struct fields that
  \<open>BuildBidRequest\<close> never assigns stay at their zero value and are left out of the
  records, except the four media objects of the impression.
\<close>

record Publisher =
  Publisher_ID :: string
  Publisher_Name :: string
  Publisher_Email :: string
  Publisher_Domain :: string
  Publisher_Active :: bool
  Publisher_RevShare :: real

record Site =
  Site_ID :: string
  Site_PublisherID :: string
  Site_Name :: string
  Site_Domain :: string
  Site_Page :: string
  Site_Cat :: "string list"
  Site_Active :: bool

record AdRequest =
  AdRequest_PlacementID :: string
  AdRequest_URL :: string
  AdRequest_Referer :: string
  AdRequest_UserAgent :: string
  AdRequest_IP :: string
  AdRequest_Width :: int
  AdRequest_Height :: int

record Banner =
  Banner_Format :: "Format list"
  Banner_W :: int
  Banner_H :: int
  Banner_Pos :: int
  Banner_ID :: string

record Video =
  Video_Mimes :: "string list"
  Video_MinDuration :: int
  Video_MaxDuration :: int
  Video_Protocols :: "int list"
  Video_W :: int
  Video_H :: int
  Video_StartDelay :: int
  Video_Linearity :: int
  Video_PlaybackMethod :: "int list"
  Video_Pos :: int
  Video_API :: "int list"

record Audio =
  Audio_Mimes :: "string list"
  Audio_MinDuration :: int
  Audio_MaxDuration :: int
  Audio_Protocols :: "int list"

record Native =
  Native_Request :: string
  Native_Ver :: string

record Impression =
  Impression_ID :: string
  Impression_Banner :: "Banner option"
  Impression_Video :: "Video option"
  Impression_Audio :: "Audio option"
  Impression_Native :: "Native option"
  Impression_TagID :: string
  Impression_BidFloor :: real
  Impression_BidFloorCur :: string
  Impression_Secure :: int

record Publisher2 =
  Publisher2_ID :: string
  Publisher2_Name :: string
  Publisher2_Domain :: string

record SiteInfo =
  SiteInfo_ID :: string
  SiteInfo_Name :: string
  SiteInfo_Domain :: string
  SiteInfo_Cat :: "string list"
  SiteInfo_Page :: string
  SiteInfo_Ref :: string
  SiteInfo_Publisher :: "Publisher2 option"

record Device =
  Device_UA :: string
  Device_IP :: string

record BidRequest =
  BidRequest_ID :: string
  BidRequest_Imp :: "Impression list"
  BidRequest_Site :: "SiteInfo option"
  BidRequest_Device :: "Device option"
  BidRequest_At :: int
  BidRequest_Tmax :: int
  BidRequest_Cur :: "string list"
  BidRequest_Source :: "Source option"

definition buildBanner :: "Placement \<Rightarrow> Banner" where
  "buildBanner placement =
     (let banner = \<lparr>Banner_Format = [], Banner_W = 0, Banner_H = 0, Banner_Pos = 1,
                     Banner_ID = Placement_ID placement\<rparr>
      in if length (Placement_Formats placement) > 0
         then banner\<lparr>Banner_Format := Placement_Formats placement\<rparr>
         else if Placement_Width placement > 0 \<and> Placement_Height placement > 0
         then banner\<lparr>Banner_W := Placement_Width placement,
                     Banner_H := Placement_Height placement,
                     Banner_Format := [\<lparr>Format_W = Placement_Width placement,
                                        Format_H = Placement_Height placement\<rparr>]\<rparr>
         else banner)"

definition buildVideo :: "Placement \<Rightarrow> Video" where
  "buildVideo placement =
     (let video = \<lparr>Video_Mimes = [], Video_MinDuration = 0, Video_MaxDuration = 0,
                    Video_Protocols = [], Video_W = Placement_Width placement,
                    Video_H = Placement_Height placement, Video_StartDelay = 0,
                    Video_Linearity = 0, Video_PlaybackMethod = [], Video_Pos = 1,
                    Video_API = []\<rparr>
      in case Placement_Video placement of
           Some settings \<Rightarrow>
             video\<lparr>Video_Mimes := VideoSettings_Mimes settings,
                   Video_MinDuration := VideoSettings_MinDuration settings,
                   Video_MaxDuration := VideoSettings_MaxDuration settings,
                   Video_Protocols := VideoSettings_Protocols settings,
                   Video_Linearity := VideoSettings_Linearity settings,
                   Video_StartDelay := VideoSettings_StartDelay settings,
                   Video_PlaybackMethod := VideoSettings_PlaybackMethod settings,
                   Video_API := VideoSettings_API settings\<rparr>
         | None \<Rightarrow>
             video\<lparr>Video_Mimes := [''video/mp4'', ''video/webm''],
                   Video_MinDuration := 5,
                   Video_MaxDuration := 30,
                   Video_Protocols := [2, 3, 5, 6],
                   Video_Linearity := 1\<rparr>)"

text \<open>The placeholder \<^verbatim>\<open>{"ver":"1.2"}\<close>; \<open>CHR 0x22\<close> is the double quote.\<close>

definition native_placeholder :: string where
  "native_placeholder =
     ''{'' @ [CHR 0x22] @ ''ver'' @ [CHR 0x22] @ '':'' @ [CHR 0x22] @ ''1.2'' @ [CHR 0x22] @ ''}''"

text \<open>
  \<open>uuid.New().String()\<close> is called three times, for the request id, the impression
  id and the transaction id, in this order; the three values are arguments of the model.
  The receiver holds the SSP id only, which the function does not read.
  The \<open>switch\<close> on \<open>placement.AdType\<close> has the cases \<open>"banner"\<close>,
  \<open>"video"\<close> and \<open>"native"\<close> and a \<open>default\<close> that returns the error.
\<close>

definition BuildBidRequest ::
  "string \<Rightarrow> string \<Rightarrow> string \<Rightarrow> AdRequest \<Rightarrow> Placement \<Rightarrow> Site \<Rightarrow> Publisher \<Rightarrow> error + BidRequest" where
  "BuildBidRequest uuid1 uuid2 uuid3 adReq placement site pub =
     (let reqID = uuid1;
          imp = \<lparr>Impression_ID = uuid2, Impression_Banner = None, Impression_Video = None,
                  Impression_Audio = None, Impression_Native = None,
                  Impression_TagID = Placement_ID placement,
                  Impression_BidFloor = Placement_MinBidFloor placement,
                  Impression_BidFloorCur = ''USD'', Impression_Secure = 1\<rparr>;
          typed =
            (if Placement_AdType placement = ''banner''
               then Inr (imp\<lparr>Impression_Banner := Some (buildBanner placement)\<rparr>)
             else if Placement_AdType placement = ''video''
               then Inr (imp\<lparr>Impression_Video := Some (buildVideo placement)\<rparr>)
             else if Placement_AdType placement = ''native''
               then Inr (imp\<lparr>Impression_Native :=
                            Some \<lparr>Native_Request = native_placeholder, Native_Ver = ''1.2''\<rparr>\<rparr>)
             else Inl (UnsupportedAdType (Placement_AdType placement)))
      in case typed of
           Inl err \<Rightarrow> Inl err
         | Inr imp \<Rightarrow>
             let siteInfo = \<lparr>SiteInfo_ID = Site_ID site, SiteInfo_Name = Site_Name site,
                              SiteInfo_Domain = Site_Domain site, SiteInfo_Cat = Site_Cat site,
                              SiteInfo_Page = AdRequest_URL adReq,
                              SiteInfo_Ref = AdRequest_Referer adReq,
                              SiteInfo_Publisher =
                                Some \<lparr>Publisher2_ID = Publisher_ID pub,
                                      Publisher2_Name = Publisher_Name pub,
                                      Publisher2_Domain = Publisher_Domain pub\<rparr>\<rparr>;
                 device = \<lparr>Device_UA = AdRequest_UserAgent adReq, Device_IP = AdRequest_IP adReq\<rparr>
             in Inr \<lparr>BidRequest_ID = reqID, BidRequest_Imp = [imp],
                      BidRequest_Site = Some siteInfo, BidRequest_Device = Some device,
                      BidRequest_At = 2, BidRequest_Tmax = 120, BidRequest_Cur = [''USD''],
                      BidRequest_Source =
                        Some \<lparr>Source_FD = 1, Source_TID = uuid3, Source_PChain = [],
                              Source_Ext = ExtNil\<rparr>\<rparr>)"

text \<open>How many of the four media objects of an impression are set.\<close>

definition media_count :: "Impression \<Rightarrow> nat" where
  "media_count imp =
     (if Impression_Banner imp = None then 0 else 1) +
     (if Impression_Video imp = None then 0 else 1) +
     (if Impression_Audio imp = None then 0 else 1) +
     (if Impression_Native imp = None then 0 else 1)"

subsection \<open>Fixtures of the builder tests\<close>

text \<open>
  The request, site, publisher and placement of \<open>TestBidRequestBuilder\<close>, the
  placement with its ad type left open.
\<close>

definition test_adReq :: AdRequest where
  "test_adReq = \<lparr>AdRequest_PlacementID = ''placement-1'',
     AdRequest_URL = ''https://testsite.com/page'', AdRequest_Referer = ''https://google.com'',
     AdRequest_UserAgent = ''Mozilla/5.0...'', AdRequest_IP = ''192.168.1.1'',
     AdRequest_Width = 300, AdRequest_Height = 250\<rparr>"

definition test_site :: Site where
  "test_site = \<lparr>Site_ID = ''site-1'', Site_PublisherID = ''pub-1'', Site_Name = ''Test Site'',
     Site_Domain = ''testsite.com'', Site_Page = [], Site_Cat = [''IAB1''], Site_Active = False\<rparr>"

definition test_publisher :: Publisher where
  "test_publisher = \<lparr>Publisher_ID = ''pub-1'', Publisher_Name = ''Test Publisher'',
     Publisher_Email = [], Publisher_Domain = ''testpub.com'', Publisher_Active = False,
     Publisher_RevShare = 0.7\<rparr>"

definition typed_placement :: "string \<Rightarrow> Placement" where
  "typed_placement adType = \<lparr>Placement_ID = ''placement-1'', Placement_SiteID = ''site-1'',
     Placement_Name = ''Test Placement'', Placement_AdType = adType, Placement_Width = 300,
     Placement_Height = 250, Placement_MinBidFloor = 0.5, Placement_Active = False,
     Placement_Formats = [], Placement_Video = None\<rparr>"

section \<open>sellers.json projection (backend/pkg/sellers_json.go)\<close>

record Seller =
  Seller_SellerID :: string
  Seller_Name :: string
  Seller_Domain :: string
  Seller_SellerType :: string
  Seller_IsConfidential :: int
  Seller_IsPassthrough :: int

record Identifier =
  Identifier_Name :: string
  Identifier_Value :: string

record SellersJSON =
  SellersJSON_ContactEmail :: string
  SellersJSON_ContactAddress :: string
  SellersJSON_Version :: string
  SellersJSON_Identifiers :: "Identifier list"
  SellersJSON_Sellers :: "Seller list"

record SellersJSONGenerator =
  Generator_ContactEmail :: string
  Generator_ContactAddress :: string
  Generator_Version :: string
  Generator_Identifiers :: "Identifier list"

definition NewSellersJSONGenerator :: "string \<Rightarrow> string \<Rightarrow> SellersJSONGenerator" where
  "NewSellersJSONGenerator contactEmail contactAddress =
     \<lparr>Generator_ContactEmail = contactEmail, Generator_ContactAddress = contactAddress,
      Generator_Version = ''1.0'', Generator_Identifiers = []\<rparr>"

definition AddIdentifier :: "SellersJSONGenerator \<Rightarrow> string \<Rightarrow> string \<Rightarrow> SellersJSONGenerator" where
  "AddIdentifier g name val =
     g\<lparr>Generator_Identifiers :=
         Generator_Identifiers g @ [\<lparr>Identifier_Name = name, Identifier_Value = val\<rparr>]\<rparr>"

text \<open>
  The loop \<open>for _, pub := range publishers\<close>, threading the slice \<open>sellers\<close>;
  \<open>continue\<close> goes on with the next publisher and the slice as it is.
\<close>

fun sellers_loop :: "Publisher list \<Rightarrow> Seller list \<Rightarrow> Seller list" where
  "sellers_loop [] sellers = sellers"
| "sellers_loop (pub # publishers) sellers =
     (if \<not> Publisher_Active pub then sellers_loop publishers sellers
      else
        let seller = \<lparr>Seller_SellerID = Publisher_ID pub, Seller_Name = Publisher_Name pub,
                       Seller_Domain = Publisher_Domain pub, Seller_SellerType = ''PUBLISHER'',
                       Seller_IsConfidential = 0, Seller_IsPassthrough = 0\<rparr>;
            seller = (if Publisher_Domain pub = [] then seller\<lparr>Seller_IsConfidential := 1\<rparr>
                      else seller)
        in sellers_loop publishers (sellers @ [seller]))"

text \<open>The function has no failing path: it always returns the document and a nil error.\<close>

definition GenerateFromPublishers :: "SellersJSONGenerator \<Rightarrow> Publisher list \<Rightarrow> error + SellersJSON" where
  "GenerateFromPublishers g publishers =
     (let sellers = sellers_loop publishers []
      in Inr \<lparr>SellersJSON_ContactEmail = Generator_ContactEmail g,
               SellersJSON_ContactAddress = Generator_ContactAddress g,
               SellersJSON_Version = Generator_Version g,
               SellersJSON_Identifiers = Generator_Identifiers g,
               SellersJSON_Sellers = sellers\<rparr>)"

text \<open>The seller entry the specification describes for an active publisher.\<close>

definition seller_of :: "Publisher \<Rightarrow> Seller" where
  "seller_of pub =
     \<lparr>Seller_SellerID = Publisher_ID pub, Seller_Name = Publisher_Name pub,
      Seller_Domain = Publisher_Domain pub, Seller_SellerType = ''PUBLISHER'',
      Seller_IsConfidential = (if Publisher_Domain pub = [] then 1 else 0),
      Seller_IsPassthrough = 0\<rparr>"

subsection \<open>Fixtures of the sellers.json tests\<close>

text \<open>The generator and the four publishers of \<open>TestGenerateFromPublishers\<close>.\<close>

definition test_generator :: SellersJSONGenerator where
  "test_generator =
     AddIdentifier (NewSellersJSONGenerator ''contact@ad.nexus'' ''123 Main St'') ''TAG-ID'' ''ABC123''"

definition catalog_publisher :: "string \<Rightarrow> string \<Rightarrow> string \<Rightarrow> string \<Rightarrow> bool \<Rightarrow> Publisher" where
  "catalog_publisher pid name domain email active =
     \<lparr>Publisher_ID = pid, Publisher_Name = name, Publisher_Email = email,
      Publisher_Domain = domain, Publisher_Active = active, Publisher_RevShare = 0\<rparr>"

definition test_publishers :: "Publisher list" where
  "test_publishers =
     [catalog_publisher ''pub-001'' ''Publisher One'' ''publisher1.com'' ''pub1@example.com'' True,
      catalog_publisher ''pub-002'' ''Publisher Two'' ''publisher2.com'' ''pub2@example.com'' True,
      catalog_publisher ''pub-003'' ''Inactive Publisher'' ''inactive.com'' ''inactive@example.com'' False,
      catalog_publisher ''pub-004'' ''Confidential Publisher'' [] ''confidential@example.com'' True]"

section \<open>SSAI request normalizer (the source file of PublicaHandler)\<close>

text \<open>
  \<open>convertToOpenRTB\<close> builds a bid request of the \<open>openrtb2\<close> package of
  \<open>github.com/prebid/openrtb\<close>; its structs are modelled with the fields the function
  assigns. \<open>Video.W\<close> and \<open>Video.H\<close> are pointers to \<open>int64\<close>.
  \<open>Params\<close> is a \<open>map[string]interface{}\<close> decoded from the request body: its
  values are JSON values, and the type assertion \<open>.(string)\<close> holds for the JSON
  strings only; a key that is absent (or a \<open>nil\<close> map) yields \<open>nil\<close>.
\<close>

record PublicaSSAIRequest =
  SSAI_PublisherID :: string
  SSAI_SiteID :: string
  SSAI_ContentID :: string
  SSAI_DeviceID :: string
  SSAI_IP :: string
  SSAI_UserAgent :: string
  SSAI_FloorPrice :: real
  SSAI_DealID :: string
  SSAI_Params :: "string \<rightharpoonup> json"
  SSAI_ContentGenre :: string
  SSAI_ContentRating :: string
  SSAI_ContentLanguage :: string
  SSAI_Duration :: int

record openrtb2_Video =
  openrtb2_Video_W :: "int option"
  openrtb2_Video_H :: "int option"
  openrtb2_Video_MinDuration :: int
  openrtb2_Video_MaxDuration :: int
  openrtb2_Video_MIMEs :: "string list"

record openrtb2_Deal =
  openrtb2_Deal_ID :: string
  openrtb2_Deal_BidFloor :: real

record openrtb2_PMP =
  openrtb2_PMP_PrivateAuction :: int
  openrtb2_PMP_Deals :: "openrtb2_Deal list"

record openrtb2_Imp =
  openrtb2_Imp_ID :: string
  openrtb2_Imp_Video :: "openrtb2_Video option"
  openrtb2_Imp_BidFloor :: real
  openrtb2_Imp_PMP :: "openrtb2_PMP option"

record openrtb2_Content =
  openrtb2_Content_ID :: string
  openrtb2_Content_Genre :: string
  openrtb2_Content_Language :: string

record openrtb2_Site =
  openrtb2_Site_ID :: string
  openrtb2_Site_Publisher :: "string option"
  openrtb2_Site_Content :: "openrtb2_Content option"

record openrtb2_Device =
  openrtb2_Device_IP :: string
  openrtb2_Device_UA :: string
  openrtb2_Device_IFA :: string

record openrtb2_BidRequest =
  openrtb2_BidRequest_ID :: string
  openrtb2_BidRequest_Imp :: "openrtb2_Imp list"
  openrtb2_BidRequest_Site :: "openrtb2_Site option"
  openrtb2_BidRequest_Device :: "openrtb2_Device option"

subsection \<open>The library calls: strings.Split and strconv.ParseInt\<close>

text \<open>\<open>strings.Split(s, "x")\<close>: the pieces of \<open>s\<close> between the separators.\<close>

fun split_on :: "char \<Rightarrow> string \<Rightarrow> string list" where
  "split_on sep [] = [[]]"
| "split_on sep (c # cs) =
     (if c = sep then [] # split_on sep cs
      else (case split_on sep cs of
              [] \<Rightarrow> [[c]]
            | part # parts \<Rightarrow> (c # part) # parts))"

text \<open>
  \<open>strconv.ParseInt(s, 10, 64)\<close> as the Go library defines it: an optional sign and
  decimal digits. On a syntax error (empty input, a character that is not a digit) the
  value returned is 0; on a range error it is the largest or smallest \<open>int64\<close>.
  \<open>parse_uint_loop\<close> is the digit loop of \<open>ParseUint\<close> on a \<open>uint64\<close>
  accumulator.
\<close>

datatype num_error = ErrSyntax | ErrRange

fun parse_uint_loop :: "string \<Rightarrow> nat \<Rightarrow> nat \<times> num_error option" where
  "parse_uint_loop [] n = (n, None)"
| "parse_uint_loop (c # cs) n =
     (if (48::nat) \<le> of_char c \<and> of_char c \<le> (57::nat) then
        (if n \<ge> (2 ^ 64 - 1) div 10 + 1 then (2 ^ 64 - 1, Some ErrRange)
         else if n * 10 + (of_char c - 48) > 2 ^ 64 - 1 then (2 ^ 64 - 1, Some ErrRange)
         else parse_uint_loop cs (n * 10 + (of_char c - 48)))
      else (0, Some ErrSyntax))"

definition ParseUint :: "string \<Rightarrow> nat \<times> num_error option" where
  "ParseUint s = (if s = [] then (0, Some ErrSyntax) else parse_uint_loop s 0)"

definition ParseInt :: "string \<Rightarrow> int \<times> num_error option" where
  "ParseInt s =
     (if s = [] then (0, Some ErrSyntax)
      else
        let neg = (hd s = CHR ''-'');
            s' = (if hd s = CHR ''+'' \<or> hd s = CHR ''-'' then tl s else s);
            (un, err) = ParseUint s'
        in if err = Some ErrSyntax then (0, err)
           else if \<not> neg \<and> un \<ge> 2 ^ 63 then (2 ^ 63 - 1, Some ErrRange)
           else if neg \<and> un > 2 ^ 63 then (- (2 ^ 63), Some ErrRange)
           else (if neg then - int un else int un, None))"

subsection \<open>convertToOpenRTB\<close>

text \<open>
  The size parsing at the head of the function: \<open>width\<close> and \<open>height\<close> start at
  1920 and 1080 and are assigned the values \<open>ParseInt\<close> returns, its errors being
  discarded (\<open>width, _ = strconv.ParseInt(parts[0], 10, 64)\<close>).
\<close>

definition parse_size :: "(string \<rightharpoonup> json) \<Rightarrow> int \<times> int" where
  "parse_size params =
     (let width = 1920; height = 1080
      in case params ''size'' of
           Some (JStr sizeStr) \<Rightarrow>
             let parts = split_on (CHR ''x'') sizeStr
             in if length parts = 2
                then (fst (ParseInt (parts ! 0)), fst (ParseInt (parts ! 1)))
                else (width, height)
         | _ \<Rightarrow> (width, height))"

text \<open>The argument \<open>uuid\<close> is the value of \<open>uuid.New().String()\<close>.\<close>

definition convertToOpenRTB :: "string \<Rightarrow> PublicaSSAIRequest \<Rightarrow> openrtb2_BidRequest" where
  "convertToOpenRTB uuid req =
     (let (width, height) = parse_size (SSAI_Params req);
          imp = \<lparr>openrtb2_Imp_ID = ''1'',
                  openrtb2_Imp_Video =
                    Some \<lparr>openrtb2_Video_W = Some width, openrtb2_Video_H = Some height,
                          openrtb2_Video_MinDuration = 5, openrtb2_Video_MaxDuration = 30,
                          openrtb2_Video_MIMEs = [''video/mp4'', ''video/webm'']\<rparr>,
                  openrtb2_Imp_BidFloor = SSAI_FloorPrice req,
                  openrtb2_Imp_PMP = None\<rparr>;
          imp = (if SSAI_DealID req \<noteq> []
                 then imp\<lparr>openrtb2_Imp_PMP :=
                        Some \<lparr>openrtb2_PMP_PrivateAuction = 1,
                              openrtb2_PMP_Deals =
                                [\<lparr>openrtb2_Deal_ID = SSAI_DealID req,
                                  openrtb2_Deal_BidFloor = SSAI_FloorPrice req\<rparr>]\<rparr>\<rparr>
                 else imp)
      in \<lparr>openrtb2_BidRequest_ID = uuid,
          openrtb2_BidRequest_Imp = [imp],
          openrtb2_BidRequest_Site =
            Some \<lparr>openrtb2_Site_ID = SSAI_SiteID req,
                  openrtb2_Site_Publisher = Some (SSAI_PublisherID req),
                  openrtb2_Site_Content =
                    Some \<lparr>openrtb2_Content_ID = SSAI_ContentID req,
                          openrtb2_Content_Genre = SSAI_ContentGenre req,
                          openrtb2_Content_Language = SSAI_ContentLanguage req\<rparr>\<rparr>,
          openrtb2_BidRequest_Device =
            Some \<lparr>openrtb2_Device_IP = SSAI_IP req, openrtb2_Device_UA = SSAI_UserAgent req,
                  openrtb2_Device_IFA = SSAI_DeviceID req\<rparr>\<rparr>)"

text \<open>The width and height of the video of the first impression of a request.\<close>

definition video_size :: "openrtb2_BidRequest \<Rightarrow> (int option \<times> int option) option" where
  "video_size r =
     (case openrtb2_BidRequest_Imp r of
        [] \<Rightarrow> None
      | imp # _ \<Rightarrow>
          (case openrtb2_Imp_Video imp of
             None \<Rightarrow> None
           | Some v \<Rightarrow> Some (openrtb2_Video_W v, openrtb2_Video_H v)))"

subsection \<open>Fixture: the SSAI round-trip scenario of the specification\<close>

definition ssai_request :: "(string \<rightharpoonup> json) \<Rightarrow> PublicaSSAIRequest" where
  "ssai_request params =
     \<lparr>SSAI_PublisherID = ''p1-publica'', SSAI_SiteID = ''site-003'', SSAI_ContentID = [],
      SSAI_DeviceID = [], SSAI_IP = [], SSAI_UserAgent = [], SSAI_FloorPrice = 1,
      SSAI_DealID = ''PMP-2024-003'', SSAI_Params = params, SSAI_ContentGenre = [],
      SSAI_ContentRating = [], SSAI_ContentLanguage = [], SSAI_Duration = 0\<rparr>"

section \<open>Properties of the ranking loops\<close>

lemma mset_sort_inner_loop: "i < length a \<Longrightarrow> mset (sort_inner_loop pr i j a) = mset a"
proof (induction pr i j a rule: sort_inner_loop.induct)
  case (1 pr i j a)
  show ?case
  proof (cases "j < length a")
    case True
    have sw: "mset (a[i := a ! j, j := a ! i]) = mset a"
      using True "1.prems" by (simp add: mset_swap)
    show ?thesis
      using True 1 sw by (subst sort_inner_loop.simps) simp
  next
    case False
    then show ?thesis by (subst sort_inner_loop.simps) simp
  qed
qed

lemma sort_inner_loop_prefix:
  "k < i \<Longrightarrow> i < j \<Longrightarrow> sort_inner_loop pr i j a ! k = a ! k"
proof (induction pr i j a rule: sort_inner_loop.induct)
  case (1 pr i j a)
  show ?case
  proof (cases "j < length a")
    case True
    then show ?thesis
      using 1 by (subst sort_inner_loop.simps) simp
  next
    case False
    then show ?thesis by (subst sort_inner_loop.simps) simp
  qed
qed

lemma sort_inner_loop_suffix:
  "i < j \<Longrightarrow> i \<le> l \<Longrightarrow> l < length a \<Longrightarrow>
   \<exists>l'. i \<le> l' \<and> l' < length a \<and> sort_inner_loop pr i j a ! l = a ! l'"
proof (induction pr i j a rule: sort_inner_loop.induct)
  case (1 pr i j a)
  show ?case
  proof (cases "j < length a")
    case False
    then show ?thesis using "1.prems" by (subst sort_inner_loop.simps) auto
  next
    case True
    let ?a' = "if pr (a ! j) > pr (a ! i) then a[i := a ! j, j := a ! i] else a"
    have len: "length ?a' = length a" by simp
    from "1.IH"[OF True] "1.prems" len
    obtain l' where l': "i \<le> l'" "l' < length a" "sort_inner_loop pr i (j + 1) ?a' ! l = ?a' ! l'"
      by (metis less_SucI add.commute plus_1_eq_Suc)
    have "\<exists>m. i \<le> m \<and> m < length a \<and> ?a' ! l' = a ! m"
    proof (cases "pr (a ! j) > pr (a ! i)")
      case False
      then show ?thesis using l' by auto
    next
      case sw: True
      consider "l' = i" | "l' = j" | "l' \<noteq> i" "l' \<noteq> j" by blast
      then show ?thesis
      proof cases
        case 1
        then show ?thesis using sw True "1.prems" l' by (intro exI[of _ j]) simp
      next
        case 2
        then show ?thesis using sw True "1.prems" l' by (intro exI[of _ i]) simp
      next
        case 3
        then show ?thesis using sw True "1.prems" l' by (intro exI[of _ l']) simp
      qed
    qed
    then show ?thesis
      using True l' by (subst sort_inner_loop.simps) auto
  qed
qed

lemma sort_inner_loop_max:
  "i < j \<Longrightarrow> j \<le> length a \<Longrightarrow>
   (\<forall>k. i < k \<and> k < j \<longrightarrow> pr (a ! k) \<le> pr (a ! i)) \<Longrightarrow>
   i < k \<Longrightarrow> k < length a \<Longrightarrow>
   pr (sort_inner_loop pr i j a ! k) \<le> pr (sort_inner_loop pr i j a ! i)"
proof (induction pr i j a rule: sort_inner_loop.induct)
  case (1 pr i j a)
  show ?case
  proof (cases "j < length a")
    case False
    then show ?thesis using "1.prems" by (subst sort_inner_loop.simps, subst sort_inner_loop.simps) auto
  next
    case True
    let ?a' = "if pr (a ! j) > pr (a ! i) then a[i := a ! j, j := a ! i] else a"
    have len: "length ?a' = length a" by simp
    have inv: "\<forall>k. i < k \<and> k < j + 1 \<longrightarrow> pr (?a' ! k) \<le> pr (?a' ! i)"
    proof (intro allI impI)
      fix k assume k: "i < k \<and> k < j + 1"
      show "pr (?a' ! k) \<le> pr (?a' ! i)"
      proof (cases "k = j")
        case True
        then show ?thesis using k \<open>j < length a\<close> "1.prems" by auto
      next
        case False
        then have "k < j" using k by simp
        then have "pr (a ! k) \<le> pr (a ! i)" using k "1.prems" by blast
        then show ?thesis using k \<open>k < j\<close> \<open>j < length a\<close> "1.prems" by auto
      qed
    qed
    have "pr (sort_inner_loop pr i (j + 1) ?a' ! k) \<le> pr (sort_inner_loop pr i (j + 1) ?a' ! i)"
      using "1.IH"[OF True _ _ inv] "1.prems" True len by simp
    then show ?thesis
      using True by (subst sort_inner_loop.simps, subst (2) sort_inner_loop.simps) simp
  qed
qed


lemma length_sort_outer_loop [simp]: "length (sort_outer_loop pr i a) = length a"
proof (induction pr i a rule: sort_outer_loop.induct)
  case (1 pr i a)
  show ?case
  proof (cases "int i < int (length a) - 1")
    case True
    with 1 show ?thesis by (subst sort_outer_loop.simps) simp
  next
    case False
    then show ?thesis by (subst sort_outer_loop.simps) simp
  qed
qed

lemma mset_sort_outer_loop: "mset (sort_outer_loop pr i a) = mset a"
proof (induction pr i a rule: sort_outer_loop.induct)
  case (1 pr i a)
  show ?case
  proof (cases "int i < int (length a) - 1")
    case True
    then have "i < length a" by simp
    with True 1 show ?thesis
      by (subst sort_outer_loop.simps) (simp add: mset_sort_inner_loop)
  next
    case False
    then show ?thesis by (subst sort_outer_loop.simps) simp
  qed
qed

lemma dominated_step:
  assumes dom: "dominated pr i a" and lt: "i + 1 < length a"
  shows "dominated pr (i + 1) (sort_inner_loop pr i (i + 1) a)"
  unfolding dominated_def
proof (intro allI impI)
  fix k l
  let ?r = "sort_inner_loop pr i (i + 1) a"
  assume kl: "k < i + 1 \<and> k < l \<and> l < length ?r"
  then have l: "l < length a" by simp
  show "pr (?r ! l) \<le> pr (?r ! k)"
  proof (cases "k = i")
    case True
    have "pr (?r ! l) \<le> pr (?r ! i)"
      by (rule sort_inner_loop_max) (use kl l lt True in auto)
    then show ?thesis using True by simp
  next
    case False
    then have ki: "k < i" using kl by simp
    then have rk: "?r ! k = a ! k" by (simp add: sort_inner_loop_prefix)
    have "\<exists>l'. k < l' \<and> l' < length a \<and> ?r ! l = a ! l'"
    proof (cases "l < i")
      case True
      then show ?thesis using kl l by (auto simp: sort_inner_loop_prefix)
    next
      case False
      then have "i \<le> l" by simp
      then obtain m where "i \<le> m" "m < length a" "?r ! l = a ! m"
        using sort_inner_loop_suffix[of i "i + 1" l a] l by auto
      then show ?thesis using ki by (intro exI[of _ m]) simp
    qed
    then obtain l' where l': "k < l'" "l' < length a" "?r ! l = a ! l'" by blast
    have "pr (a ! l') \<le> pr (a ! k)"
      using dom ki l' unfolding dominated_def by auto
    then show ?thesis using rk l' by simp
  qed
qed

lemma dominated_sort_outer_loop:
  "dominated pr i a \<Longrightarrow> dominated pr (length a) (sort_outer_loop pr i a)"
proof (induction pr i a rule: sort_outer_loop.induct)
  case (1 pr i a)
  show ?case
  proof (cases "int i < int (length a) - 1")
    case True
    then have lt: "i + 1 < length a" by linarith
    have "dominated pr (i + 1) (sort_inner_loop pr i (i + 1) a)"
      using dominated_step[OF "1.prems" lt] .
    from "1.IH"[OF True this] show ?thesis
      using True by (subst sort_outer_loop.simps) simp
  next
    case False
    then have "length a \<le> i + 1" by linarith
    have "dominated pr (length a) a"
      unfolding dominated_def
    proof (intro allI impI)
      fix k l assume kl: "k < length a \<and> k < l \<and> l < length a"
      then have "k < i" using \<open>length a \<le> i + 1\<close> by linarith
      then show "pr (a ! l) \<le> pr (a ! k)"
        using "1.prems" kl unfolding dominated_def by blast
    qed
    then show ?thesis using False by (subst sort_outer_loop.simps) simp
  qed
qed

lemma sorted_sort_outer_loop:
  "sorted_wrt (\<lambda>x y. pr y \<le> pr x) (sort_outer_loop pr 0 a)"
proof -
  have "dominated pr 0 a" by (simp add: dominated_def)
  then have "dominated pr (length a) (sort_outer_loop pr 0 a)"
    by (rule dominated_sort_outer_loop)
  then show ?thesis
    by (simp add: sorted_wrt_iff_nth_less dominated_def)
qed

lemma desc_sorted_is_rev_sort:
  fixes xs :: "real list"
  assumes "sorted_wrt (\<lambda>x y. y \<le> x) xs"
  shows "xs = rev (sort xs)"
proof -
  have "sorted (rev xs)" using assms by (simp add: sorted_wrt_rev)
  moreover have "mset (rev xs) = mset xs" by simp
  ultimately have "sort xs = rev xs" by (intro properties_for_sort)
  then show ?thesis by simp
qed

lemma prices_sort_outer_loop:
  "map pr (sort_outer_loop pr 0 a) = rev (sort (map pr a))"
proof -
  let ?r = "sort_outer_loop pr 0 a"
  have "sorted_wrt (\<lambda>x y. y \<le> x) (map pr ?r)"
    using sorted_sort_outer_loop[of pr a] by (simp add: sorted_wrt_map)
  then have "map pr ?r = rev (sort (map pr ?r))"
    by (rule desc_sorted_is_rev_sort)
  moreover have "mset (map pr ?r) = mset (map pr a)"
    by (simp add: mset_sort_outer_loop)
  then have "sort (map pr ?r) = sort (map pr a)"
    by (intro properties_for_sort) simp_all
  ultimately show ?thesis by simp
qed

section \<open>Properties of the collection loops\<close>

lemma sort_inner_loop_map:
  "i < j \<Longrightarrow> \<forall>x. pr' (f x) = pr x \<Longrightarrow>
   map f (sort_inner_loop pr i j a) = sort_inner_loop pr' i j (map f a)"
proof (induction pr i j a rule: sort_inner_loop.induct)
  case (1 pr i j a)
  show ?case
  proof (cases "j < length a")
    case True
    then have i: "i < length a" using "1.prems" by simp
    have "map f (sort_inner_loop pr i (j + 1)
            (if pr (a ! j) > pr (a ! i) then a[i := a ! j, j := a ! i] else a)) =
          sort_inner_loop pr' i (j + 1)
            (map f (if pr (a ! j) > pr (a ! i) then a[i := a ! j, j := a ! i] else a))"
      using "1.IH"[OF True] "1.prems" by simp
    then show ?thesis
      using True i "1.prems"(2)
      by (subst sort_inner_loop.simps, subst (2) sort_inner_loop.simps) (simp add: map_update)
  next
    case False
    then show ?thesis
      by (subst sort_inner_loop.simps, subst (2) sort_inner_loop.simps) simp
  qed
qed

lemma sort_outer_loop_map:
  "\<forall>x. pr' (f x) = pr x \<Longrightarrow>
   map f (sort_outer_loop pr i a) = sort_outer_loop pr' i (map f a)"
proof (induction pr i a rule: sort_outer_loop.induct)
  case (1 pr i a)
  show ?case
  proof (cases "int i < int (length a) - 1")
    case True
    have "map f (sort_inner_loop pr i (i + 1) a) = sort_inner_loop pr' i (i + 1) (map f a)"
      using "1.prems" by (intro sort_inner_loop_map) simp_all
    then show ?thesis
      using True "1.IH"[OF True "1.prems"]
      by (subst sort_outer_loop.simps, subst (2) sort_outer_loop.simps) simp
  next
    case False
    then show ?thesis
      by (subst sort_outer_loop.simps, subst (2) sort_outer_loop.simps) simp
  qed
qed

lemma extends_refl [simp]: "extends h h"
  by (simp add: extends_def)

lemma extends_trans: "extends h h' \<Longrightarrow> extends h' h'' \<Longrightarrow> extends h h''"
  by (auto simp: extends_def)

lemma deref_extends:
  "extends h h' \<Longrightarrow> refs_ok h a \<Longrightarrow> map (deref h') a = map (deref h) a"
  by (auto simp: extends_def refs_ok_def deref_def)

lemma refs_ok_extends: "extends h h' \<Longrightarrow> refs_ok h a \<Longrightarrow> refs_ok h' a"
  by (auto simp: extends_def refs_ok_def)

lemma collect_bid_loop_per_iteration_view:
  assumes "refs_ok h a"
    and "collect_bid_loop_per_iteration partner pl bids (h, a) = (h', a')"
  shows "extends h h' \<and> refs_ok h' a' \<and>
         map (deref h') a' = map (deref h) a @ seat_view PerIteration partner pl bids"
  using assms
proof (induction bids arbitrary: h a)
  case Nil
  then show ?case by (simp add: seat_view_def)
next
  case (Cons bid bids)
  let ?a0 = "if Bid_Price bid \<ge> Placement_MinBidFloor pl
             then a @ [\<lparr>Ref_Bid = length h, Ref_Partner = partner\<rparr>] else a"
  have ok0: "refs_ok (h @ [bid]) ?a0"
    using Cons.prems(1) by (auto simp: refs_ok_def)
  have run: "collect_bid_loop_per_iteration partner pl bids (h @ [bid], ?a0) = (h', a')"
    using Cons.prems(2) by simp
  note IH = Cons.IH[OF ok0 run]
  have e0: "extends h (h @ [bid])" by (simp add: extends_def nth_append)
  have d0: "map (deref (h @ [bid])) ?a0 =
            map (deref h) a @ seat_view PerIteration partner pl [bid]"
    using deref_extends[OF e0 Cons.prems(1)]
    by (simp add: seat_view_def deref_def)
  have "seat_view PerIteration partner pl (bid # bids) =
        seat_view PerIteration partner pl [bid] @ seat_view PerIteration partner pl bids"
    by (simp add: seat_view_def)
  then show ?case
    using IH e0 d0 extends_trans by auto
qed

lemma collect_bid_loop_shared_eq:
  "collect_bid_loop_shared x partner pl bids (h, a) =
     ((if bids = [] then h else h[x := last bids]),
      a @ replicate (length (filter (\<lambda>bid. Placement_MinBidFloor pl \<le> Bid_Price bid) bids))
                    \<lparr>Ref_Bid = x, Ref_Partner = partner\<rparr>)"
proof (induction bids arbitrary: h a)
  case Nil
  then show ?case by simp
next
  case (Cons bid bids)
  show ?case
    by (simp add: Cons.IH replicate_append_same)
qed

lemma collect_bid_loop_shared_view:
  assumes "refs_ok h a"
    and "collect_bid_loop SharedVariable partner pl bids (h, a) = (h', a')"
  shows "extends h h' \<and> refs_ok h' a' \<and>
         map (deref h') a' = map (deref h) a @ seat_view SharedVariable partner pl bids"
proof -
  let ?n = "length (filter (\<lambda>bid. Placement_MinBidFloor pl \<le> Bid_Price bid) bids)"
  let ?h1 = "h @ [zero_Bid]"
  have h': "h' = (if bids = [] then ?h1 else ?h1[length h := last bids])"
    and a': "a' = a @ replicate ?n \<lparr>Ref_Bid = length h, Ref_Partner = partner\<rparr>"
    using assms(2) by (simp_all add: collect_bid_loop_def collect_bid_loop_shared_eq)
  have ext: "extends h h'"
    by (auto simp: h' extends_def nth_append nth_list_update)
  have ok: "refs_ok h' a'"
    using assms(1) by (auto simp: h' a' refs_ok_def)
  have old: "map (deref h') a = map (deref h) a"
    using deref_extends[OF ext assms(1)] .
  have new: "map (deref h') (replicate ?n \<lparr>Ref_Bid = length h, Ref_Partner = partner\<rparr>) =
             seat_view SharedVariable partner pl bids"
  proof (cases "bids = []")
    case True
    then show ?thesis by (simp add: seat_view_def)
  next
    case False
    then have "h' ! length h = last bids" by (simp add: h')
    then show ?thesis by (simp add: seat_view_def deref_def)
  qed
  from ext ok old new show ?thesis by (simp add: a')
qed

lemma collect_bid_loop_view:
  assumes "refs_ok h a"
    and "collect_bid_loop sem partner pl bids (h, a) = (h', a')"
  shows "extends h h' \<and> refs_ok h' a' \<and>
         map (deref h') a' = map (deref h) a @ seat_view sem partner pl bids"
proof (cases sem)
  case PerIteration
  then show ?thesis
    using assms collect_bid_loop_per_iteration_view by (simp add: collect_bid_loop_def)
next
  case SharedVariable
  then show ?thesis using assms collect_bid_loop_shared_view by simp
qed

lemma collect_seatbid_loop_view:
  assumes "refs_ok h a"
    and "collect_seatbid_loop sem partner pl seatBids (h, a) = (h', a')"
  shows "extends h h' \<and> refs_ok h' a' \<and>
         map (deref h') a' = map (deref h) a @
           concat (map (\<lambda>seatBid. seat_view sem partner pl (SeatBid_Bid seatBid)) seatBids)"
  using assms
proof (induction seatBids arbitrary: h a)
  case Nil
  then show ?case by simp
next
  case (Cons seatBid seatBids)
  obtain h1 a1 where s1: "collect_bid_loop sem partner pl (SeatBid_Bid seatBid) (h, a) = (h1, a1)"
    by (cases "collect_bid_loop sem partner pl (SeatBid_Bid seatBid) (h, a)") auto
  note V = collect_bid_loop_view[OF Cons.prems(1) s1]
  have run: "collect_seatbid_loop sem partner pl seatBids (h1, a1) = (h', a')"
    using Cons.prems(2) s1 by simp
  from V have ok1: "refs_ok h1 a1" by blast
  note IH = Cons.IH[OF ok1 run]
  show ?case using V IH extends_trans by auto
qed

lemma collect_response_loop_view:
  assumes "refs_ok h a"
    and "collect_response_loop sem rs pl (h, a) = (h', a')"
  shows "extends h h' \<and> refs_ok h' a' \<and>
         map (deref h') a' = map (deref h) a @ concat (map (entry_view sem pl) rs)"
  using assms
proof (induction sem rs pl "(h, a)" arbitrary: h a rule: collect_response_loop.induct)
  case (1 sem placement)
  then show ?case by simp
next
  case (2 sem partner responses placement)
  then show ?case by (simp add: entry_view_def)
next
  case (3 sem partner response responses placement)
  obtain h1 a1 where s1:
    "collect_seatbid_loop sem partner placement (BidResponse_SeatBid response) (h, a) = (h1, a1)"
    by (cases "collect_seatbid_loop sem partner placement (BidResponse_SeatBid response) (h, a)") auto
  note V = collect_seatbid_loop_view[OF "3.prems"(1) s1]
  from V have ok1: "refs_ok h1 a1" by blast
  have run: "collect_response_loop sem responses placement (h1, a1) = (h', a')"
    using "3.prems"(2) s1 by simp
  note IH = "3.hyps"[OF s1 ok1 run]
  show ?case using V IH extends_trans by (auto simp: entry_view_def)
qed

lemma collected_bids_eq:
  "collected_bids sem rs pl = concat (map (entry_view sem pl) rs)"
proof -
  obtain h' a' where s: "collect_response_loop sem rs pl ([], []) = (h', a')"
    by (cases "collect_response_loop sem rs pl ([], [])") auto
  have "refs_ok [] []" by (simp add: refs_ok_def)
  from collect_response_loop_view[OF this s] show ?thesis
    by (simp add: collected_bids_def s)
qed

section \<open>Properties of RunAuction\<close>

lemma bwp_price_deref [simp]: "bwp_price (deref h e) = ref_price h e"
  by (simp add: bwp_price_def deref_def ref_price_def)

lemma RunAuction_None: "RunAuction sem rs p = None \<longleftrightarrow> collected_bids sem rs p = []"
  by (simp add: RunAuction_def collected_bids_def Let_def split: prod.splits)

lemma RunAuction_Some:
  assumes "collected_bids sem rs p \<noteq> []"
  shows "RunAuction sem rs p =
    Some \<lparr>WinningBid = BWP_Bid (sort_outer_loop bwp_price 0 (collected_bids sem rs p) ! 0),
          WinningPartner = BWP_Partner (sort_outer_loop bwp_price 0 (collected_bids sem rs p) ! 0),
          AllBids = sort_outer_loop bwp_price 0 (collected_bids sem rs p),
          AuctionType = 2,
          ClearedPrice =
            (let c = (if length (collected_bids sem rs p) > 1
                      then bwp_price (sort_outer_loop bwp_price 0 (collected_bids sem rs p) ! 1)
                      else Placement_MinBidFloor p)
             in if c < Placement_MinBidFloor p then Placement_MinBidFloor p else c)\<rparr>"
proof -
  obtain h a where s: "collect_response_loop sem rs p ([], []) = (h, a)"
    by (cases "collect_response_loop sem rs p ([], [])") auto
  let ?sa = "sort_outer_loop (ref_price h) 0 a"
  let ?S = "sort_outer_loop bwp_price 0 (collected_bids sem rs p)"
  have c: "collected_bids sem rs p = map (deref h) a" by (simp add: collected_bids_def s)
  have ne: "a \<noteq> []" using assms c by auto
  have S: "?S = map (deref h) ?sa"
    unfolding c by (rule sort_outer_loop_map[symmetric]) simp
  have len: "length (collected_bids sem rs p) = length a" by (simp add: c)
  have l0: "0 < length ?sa" using ne by simp
  have w: "?S ! 0 = deref h (?sa ! 0)" unfolding S using l0 by (rule nth_map)
  have WB: "h ! Ref_Bid (?sa ! 0) = BWP_Bid (?S ! 0)" by (simp add: w deref_def)
  have WP: "Ref_Partner (?sa ! 0) = BWP_Partner (?S ! 0)" by (simp add: w deref_def)
  have AB: "map (deref h) ?sa = ?S" by (simp add: S)
  have CP: "1 < length a \<Longrightarrow> ref_price h (?sa ! 1) = bwp_price (?S ! 1)"
    unfolding S by simp
  have R: "RunAuction sem rs p =
    Some \<lparr>WinningBid = h ! Ref_Bid (?sa ! 0), WinningPartner = Ref_Partner (?sa ! 0),
          AllBids = map (deref h) ?sa, AuctionType = 2,
          ClearedPrice =
            (let c = (if length a > 1 then ref_price h (?sa ! 1) else Placement_MinBidFloor p)
             in if c < Placement_MinBidFloor p then Placement_MinBidFloor p else c)\<rparr>"
    using ne by (simp add: RunAuction_def s Let_def)
  show ?thesis
    unfolding R WB WP AB len using CP by (simp add: Let_def)
qed

lemma sorted_nth_prices:
  "i < length a \<Longrightarrow> pr (sort_outer_loop pr 0 a ! i) = rev (sort (map pr a)) ! i"
  using prices_sort_outer_loop[of pr a] by (metis length_sort_outer_loop nth_map)

lemma sort_outer_loop_floor:
  assumes "\<forall>b\<in>set a. f \<le> pr b" and "i < length a"
  shows "f \<le> pr (sort_outer_loop pr 0 a ! i)"
proof -
  have "sort_outer_loop pr 0 a ! i \<in> set (sort_outer_loop pr 0 a)" using assms(2) by simp
  then have "sort_outer_loop pr 0 a ! i \<in> set a"
    using mset_sort_outer_loop[of pr 0 a] by (metis set_mset_mset)
  then show ?thesis using assms(1) by blast
qed

lemma sort_outer_loop_first_max:
  assumes "1 < length a"
  shows "pr (sort_outer_loop pr 0 a ! 1) \<le> pr (sort_outer_loop pr 0 a ! 0)"
  using sorted_sort_outer_loop[of pr a] assms
  by (simp add: sorted_wrt_iff_nth_less)

text \<open>
  Whatever the loop semantics, the cleared price is the floor when one entry was
  collected, and otherwise the larger of the floor and the second-highest price among
  the collected entries as they read after the loops.
\<close>

lemma RunAuction_cleared_price_collected:
  assumes "collected_bids sem rs p \<noteq> []"
  shows "\<exists>r. RunAuction sem rs p = Some r \<and> AuctionType r = 2 \<and>
     (length (collected_bids sem rs p) = 1 \<longrightarrow> ClearedPrice r = Placement_MinBidFloor p) \<and>
     (2 \<le> length (collected_bids sem rs p) \<longrightarrow>
        ClearedPrice r = max (Placement_MinBidFloor p)
                             (second_highest (map bwp_price (collected_bids sem rs p))))"
proof -
  let ?a = "collected_bids sem rs p"
  have two: "2 \<le> length ?a \<Longrightarrow>
      bwp_price (sort_outer_loop bwp_price 0 ?a ! 1) = second_highest (map bwp_price ?a)"
    by (simp add: sorted_nth_prices second_highest_def)
  show ?thesis
    using RunAuction_Some[OF assms] two
    by (auto simp: Let_def max_def)
qed

lemma seat_view_per_iteration:
  "seat_view PerIteration partner pl bids =
     filter (\<lambda>b. Placement_MinBidFloor pl \<le> bwp_price b)
            (map (\<lambda>bid. \<lparr>BWP_Bid = bid, BWP_Partner = partner\<rparr>) bids)"
  by (induction bids) (simp_all add: seat_view_def bwp_price_def)

lemma entry_view_per_iteration:
  "entry_view PerIteration pl e =
     filter (\<lambda>b. Placement_MinBidFloor pl \<le> bwp_price b) (flatten_entry e)"
  by (cases e)
     (simp add: entry_view_def flatten_entry_def tag_bids_def seat_view_per_iteration
        filter_concat comp_def split: option.splits)

text \<open>
  With a variable per iteration, the collected entries are the bids the specification
  admits.
\<close>

lemma collected_bids_per_iteration:
  "collected_bids PerIteration rs p = admitted_bids rs p"
proof -
  have "entry_view PerIteration p =
        (\<lambda>e. filter (\<lambda>b. Placement_MinBidFloor p \<le> bwp_price b) (flatten_entry e))"
    by (rule ext) (rule entry_view_per_iteration)
  then show ?thesis
    by (simp add: collected_bids_eq admitted_bids_def flatten_responses_def filter_concat comp_def)
qed

lemma seat_view_partners:
  "map BWP_Partner (seat_view sem partner pl bids) =
   replicate (length (filter (\<lambda>bid. Placement_MinBidFloor pl \<le> Bid_Price bid) bids)) partner"
proof (cases sem)
  case PerIteration
  have "map BWP_Partner (map (\<lambda>bid. \<lparr>BWP_Bid = bid, BWP_Partner = partner\<rparr>) xs) =
        replicate (length xs) partner" for xs :: "Bid list"
    by (induction xs) simp_all
  then show ?thesis using PerIteration by (simp add: seat_view_def)
next
  case SharedVariable
  then show ?thesis by (simp add: seat_view_def)
qed

lemma entry_view_partners:
  "map BWP_Partner (entry_view sem pl e) = map BWP_Partner (entry_view PerIteration pl e)"
  by (cases "snd e") (simp_all add: entry_view_def map_concat comp_def seat_view_partners)

text \<open>
  Whatever the loop semantics, one entry is collected for each admitted bid, for the
  partner that offered it.
\<close>

lemma collected_bids_partners:
  "map BWP_Partner (collected_bids sem rs p) = map BWP_Partner (admitted_bids rs p)"
proof -
  have "(\<lambda>e. map BWP_Partner (entry_view sem p e)) =
        (\<lambda>e. map BWP_Partner (entry_view PerIteration p e))"
    by (rule ext) (rule entry_view_partners)
  then have "map BWP_Partner (collected_bids sem rs p) =
        map BWP_Partner (collected_bids PerIteration rs p)"
    by (simp add: collected_bids_eq map_concat comp_def)
  then show ?thesis by (simp add: collected_bids_per_iteration)
qed

lemma collected_bids_length:
  "length (collected_bids sem rs p) = length (admitted_bids rs p)"
proof -
  have "length (map BWP_Partner (collected_bids sem rs p)) =
        length (map BWP_Partner (admitted_bids rs p))"
    by (simp only: collected_bids_partners)
  then show ?thesis by simp
qed

text \<open>
  The claims C1 and C2 hold of the model with a variable per iteration: the cleared
  price is the floor for one admitted bid and the larger of the floor and the
  second-highest admitted price for two or more, every entry of the result is priced at
  or above the floor, a bid priced exactly at the floor is admitted, and the cleared
  price lies between the floor and the winning price.
\<close>

lemma RunAuction_cleared_price_per_iteration:
  assumes "admitted_bids rs p \<noteq> []"
  shows "\<exists>r. RunAuction PerIteration rs p = Some r \<and> AuctionType r = 2 \<and>
     (length (admitted_bids rs p) = 1 \<longrightarrow> ClearedPrice r = Placement_MinBidFloor p) \<and>
     (2 \<le> length (admitted_bids rs p) \<longrightarrow>
        ClearedPrice r = max (Placement_MinBidFloor p)
                             (second_highest (map bwp_price (admitted_bids rs p))))"
  using RunAuction_cleared_price_collected[of PerIteration rs p] assms
  by (simp add: collected_bids_per_iteration)

lemma RunAuction_floor_invariant_per_iteration:
  assumes "RunAuction PerIteration rs p = Some r"
  shows "(\<forall>b\<in>set (AllBids r). Placement_MinBidFloor p \<le> Bid_Price (BWP_Bid b)) \<and>
         (\<forall>b\<in>set (flatten_responses rs).
             Bid_Price (BWP_Bid b) = Placement_MinBidFloor p \<longrightarrow> b \<in> set (AllBids r)) \<and>
         Placement_MinBidFloor p \<le> ClearedPrice r \<and>
         ClearedPrice r \<le> Bid_Price (WinningBid r)"
proof -
  let ?a = "admitted_bids rs p"
  let ?s = "sort_outer_loop bwp_price 0 ?a"
  let ?f = "Placement_MinBidFloor p"
  have col: "collected_bids PerIteration rs p = ?a" by (rule collected_bids_per_iteration)
  have ne: "?a \<noteq> []" using assms RunAuction_None[of PerIteration rs p] col by auto
  have fl: "\<forall>b\<in>set ?a. ?f \<le> bwp_price b" by (simp add: admitted_bids_def)
  have set_s: "set ?s = set ?a"
    using mset_sort_outer_loop[of bwp_price 0 ?a] by (metis set_mset_mset)
  have r: "r = \<lparr>WinningBid = BWP_Bid (?s ! 0), WinningPartner = BWP_Partner (?s ! 0),
          AllBids = ?s, AuctionType = 2,
          ClearedPrice =
            (let c = (if length ?a > 1 then bwp_price (?s ! 1) else ?f)
             in if c < ?f then ?f else c)\<rparr>"
    using RunAuction_Some[of PerIteration rs p] ne assms by (simp add: col)
  have w: "?f \<le> bwp_price (?s ! 0)"
    using fl ne by (intro sort_outer_loop_floor) auto
  have ab: "AllBids r = ?s" by (simp add: r)
  have wb: "WinningBid r = BWP_Bid (?s ! 0)" by (simp add: r)
  have cp: "ClearedPrice r = (let c = (if length ?a > 1 then bwp_price (?s ! 1) else ?f)
             in if c < ?f then ?f else c)" by (simp add: r)
  have c1: "\<forall>b\<in>set (AllBids r). ?f \<le> Bid_Price (BWP_Bid b)"
    using fl set_s by (simp add: ab bwp_price_def)
  have c2: "\<forall>b\<in>set (flatten_responses rs). Bid_Price (BWP_Bid b) = ?f \<longrightarrow> b \<in> set (AllBids r)"
    using set_s by (simp add: ab admitted_bids_def bwp_price_def)
  have c3: "?f \<le> ClearedPrice r" by (simp add: cp Let_def)
  have c4: "ClearedPrice r \<le> Bid_Price (WinningBid r)"
  proof (cases "length ?a > 1")
    case True
    then show ?thesis
      using sort_outer_loop_first_max[OF True, of bwp_price] w
      by (simp add: cp wb Let_def bwp_price_def)
  next
    case False
    then show ?thesis using w
      by (simp add: cp wb Let_def bwp_price_def)
  qed
  from c1 c2 c3 c4 show ?thesis by blast
qed

text \<open>
  The floor bounds the cleared price from below whatever the loop semantics.
\<close>

lemma RunAuction_cleared_at_least_floor:
  assumes "RunAuction sem rs p = Some r"
  shows "Placement_MinBidFloor p \<le> ClearedPrice r"
proof -
  have ne: "collected_bids sem rs p \<noteq> []" using assms RunAuction_None[of sem rs p] by auto
  show ?thesis using RunAuction_Some[OF ne] assms by (auto simp: Let_def)
qed

lemmas RunAuction_eval =
  RunAuction_def collect_bid_loop_def test_defs sort_outer_loop.simps sort_inner_loop.simps
  ref_price_def deref_def zero_Bid_def Let_def

section \<open>Claims about the auction engine\<close>



lemma bwp_price_relabel [simp]: "bwp_price (relabel_bwp f e) = bwp_price e"
  by (simp add: bwp_price_def relabel_bwp_def relabel_bid_def)

lemma seat_view_relabel:
  "seat_view sem partner pl (map (relabel_bid f) bids) =
   map (relabel_bwp f) (seat_view sem partner pl bids)"
proof (cases sem)
  case PerIteration
  then show ?thesis
    by (induction bids) (simp_all add: seat_view_def relabel_bwp_def relabel_bid_def)
next
  case SharedVariable
  have n: "length (filter (\<lambda>bid. Placement_MinBidFloor pl \<le> Bid_Price bid) (map (relabel_bid f) bids)) =
           length (filter (\<lambda>bid. Placement_MinBidFloor pl \<le> Bid_Price bid) bids)"
    by (induction bids) (simp_all add: relabel_bid_def)
  show ?thesis
  proof (cases "bids = []")
    case True
    then show ?thesis using SharedVariable by (simp add: seat_view_def)
  next
    case False
    then show ?thesis
      using SharedVariable n by (simp add: seat_view_def last_map relabel_bwp_def)
  qed
qed

lemma entry_view_relabel:
  "entry_view sem pl (relabel_entry f e) = map (relabel_bwp f) (entry_view sem pl e)"
  by (cases "snd e")
     (simp_all add: entry_view_def relabel_entry_def relabel_response_def relabel_seatbid_def
        map_concat comp_def seat_view_relabel)

lemma collected_bids_relabel:
  "collected_bids sem (map (relabel_entry f) rs) p =
   map (relabel_bwp f) (collected_bids sem rs p)"
proof -
  have "(\<lambda>e. entry_view sem p (relabel_entry f e)) = (\<lambda>e. map (relabel_bwp f) (entry_view sem p e))"
    by (rule ext) (rule entry_view_relabel)
  then show ?thesis
    by (simp add: collected_bids_eq map_concat comp_def)
qed

lemma RunAuction_relabel:
  "RunAuction sem (map (relabel_entry f) rs) p = map_option (relabel_result f) (RunAuction sem rs p)"
proof (cases "collected_bids sem rs p = []")
  case True
  then have "collected_bids sem (map (relabel_entry f) rs) p = []"
    by (simp add: collected_bids_relabel)
  then have "RunAuction sem (map (relabel_entry f) rs) p = None"
    using RunAuction_None[of sem "map (relabel_entry f) rs" p] by blast
  moreover have "RunAuction sem rs p = None"
    using True RunAuction_None[of sem rs p] by blast
  ultimately show ?thesis by simp
next
  case False
  let ?c = "collected_bids sem rs p"
  let ?g = "relabel_bwp f"
  let ?S = "sort_outer_loop bwp_price 0 ?c"
  have c': "collected_bids sem (map (relabel_entry f) rs) p = map ?g ?c"
    by (rule collected_bids_relabel)
  have ne': "collected_bids sem (map (relabel_entry f) rs) p \<noteq> []" using False c' by simp
  have S': "sort_outer_loop bwp_price 0 (map ?g ?c) = map ?g ?S"
    by (rule sort_outer_loop_map[symmetric]) simp
  have l0: "0 < length ?S" using False by simp
  have n0: "map ?g ?S ! 0 = ?g (?S ! 0)" using l0 by (rule nth_map)
  have n1: "1 < length ?c \<Longrightarrow> bwp_price (map ?g ?S ! 1) = bwp_price (?S ! 1)" by simp
  show ?thesis
    using n1
    by (simp add: RunAuction_Some[OF False] RunAuction_Some[OF ne'] c' S' n0 Let_def
          relabel_result_def relabel_bwp_def)
qed

text \<open>
  C3, as stated, fails. \<open>RunAuction\<close> receives the responses and the placement only:
  the request and its deal id are not among its inputs. For a request carrying
  \<open>dealid = PMP-2024-001\<close>, partner 1 answering with that deal id at 1.50 and partner 2
  answering without a deal id at 2.00, the bid without the deal id is admitted and wins,
  whichever way the loop variable is defined.
\<close>

theorem RunAuction_deal_filter_counterexample:
  "RunAuction PerIteration
     [(partner1, Some (test_response ''resp-1'' [test_bid ''bid-1'' 1.5 ''PMP-2024-001''])),
      (partner2, Some (test_response ''resp-2'' [test_bid ''bid-2'' 2 []]))]
     (test_placement 0.1) =
     Some \<lparr>WinningBid = test_bid ''bid-2'' 2 [], WinningPartner = partner2,
           AllBids = [\<lparr>BWP_Bid = test_bid ''bid-2'' 2 [], BWP_Partner = partner2\<rparr>,
                      \<lparr>BWP_Bid = test_bid ''bid-1'' 1.5 ''PMP-2024-001'', BWP_Partner = partner1\<rparr>],
           AuctionType = 2, ClearedPrice = 1.5\<rparr> \<and>
   RunAuction SharedVariable
     [(partner1, Some (test_response ''resp-1'' [test_bid ''bid-1'' 1.5 ''PMP-2024-001''])),
      (partner2, Some (test_response ''resp-2'' [test_bid ''bid-2'' 2 []]))]
     (test_placement 0.1) =
     Some \<lparr>WinningBid = test_bid ''bid-2'' 2 [], WinningPartner = partner2,
           AllBids = [\<lparr>BWP_Bid = test_bid ''bid-2'' 2 [], BWP_Partner = partner2\<rparr>,
                      \<lparr>BWP_Bid = test_bid ''bid-1'' 1.5 ''PMP-2024-001'', BWP_Partner = partner1\<rparr>],
           AuctionType = 2, ClearedPrice = 1.5\<rparr> \<and>
   Bid_DealID (test_bid ''bid-2'' 2 []) \<noteq> ''PMP-2024-001''"
  by (simp add: RunAuction_eval)

text \<open>
  C3, amended. Admission by \<open>RunAuction\<close> looks at the price alone, never at a deal
  id. There is a result exactly when some bid of a non-nil response is priced at or
  above the placement's floor; \<open>AllBids\<close> then has one entry for each such bid, for the
  partner that offered it; and rewriting the deal ids of the bids in any way changes
  nothing in the result but the deal ids it shows. This holds whichever way the loop
  variable is defined.
\<close>

theorem RunAuction_admission_ignores_dealid:
  "(RunAuction sem rs p = None \<longleftrightarrow> admitted_bids rs p = []) \<and>
   (\<forall>r. RunAuction sem rs p = Some r \<longrightarrow>
      length (AllBids r) = length (admitted_bids rs p) \<and>
      mset (map BWP_Partner (AllBids r)) = mset (map BWP_Partner (admitted_bids rs p))) \<and>
   RunAuction sem (map (relabel_entry f) rs) p = map_option (relabel_result f) (RunAuction sem rs p)"
proof -
  have A: "RunAuction sem rs p = None \<longleftrightarrow> admitted_bids rs p = []"
    using collected_bids_length[of sem rs p] RunAuction_None[of sem rs p]
    by (metis length_0_conv)
  have B: "\<forall>r. RunAuction sem rs p = Some r \<longrightarrow>
      length (AllBids r) = length (admitted_bids rs p) \<and>
      mset (map BWP_Partner (AllBids r)) = mset (map BWP_Partner (admitted_bids rs p))"
  proof (intro allI impI)
    fix r assume r: "RunAuction sem rs p = Some r"
    then have ne: "collected_bids sem rs p \<noteq> []" using RunAuction_None[of sem rs p] by auto
    have ab: "AllBids r = sort_outer_loop bwp_price 0 (collected_bids sem rs p)"
      using RunAuction_Some[OF ne] r by simp
    have "mset (AllBids r) = mset (collected_bids sem rs p)"
      by (simp add: ab mset_sort_outer_loop)
    then have "mset (map BWP_Partner (AllBids r)) = mset (map BWP_Partner (collected_bids sem rs p))"
      by simp
    then show "length (AllBids r) = length (admitted_bids rs p) \<and>
      mset (map BWP_Partner (AllBids r)) = mset (map BWP_Partner (admitted_bids rs p))"
      by (simp add: ab collected_bids_length collected_bids_partners)
  qed
  from A B RunAuction_relabel show ?thesis by blast
qed

text \<open>
  The amended C3 on the example above, with a shared loop variable: both bids are
  admitted, and giving every bid the deal id of the request changes only the deal ids
  in the result.
\<close>

theorem RunAuction_admission_ignores_dealid_witness:
  "RunAuction SharedVariable
     [(partner1, Some (test_response ''resp-1'' [test_bid ''bid-1'' 1.5 ''PMP-2024-001''])),
      (partner2, Some (test_response ''resp-2'' [test_bid ''bid-2'' 2 []]))]
     (test_placement 0.1) =
     Some \<lparr>WinningBid = test_bid ''bid-2'' 2 [], WinningPartner = partner2,
           AllBids = [\<lparr>BWP_Bid = test_bid ''bid-2'' 2 [], BWP_Partner = partner2\<rparr>,
                      \<lparr>BWP_Bid = test_bid ''bid-1'' 1.5 ''PMP-2024-001'', BWP_Partner = partner1\<rparr>],
           AuctionType = 2, ClearedPrice = 1.5\<rparr> \<and>
   length (admitted_bids
     [(partner1, Some (test_response ''resp-1'' [test_bid ''bid-1'' 1.5 ''PMP-2024-001''])),
      (partner2, Some (test_response ''resp-2'' [test_bid ''bid-2'' 2 []]))]
     (test_placement 0.1)) = 2 \<and>
   RunAuction SharedVariable
     (map (relabel_entry (\<lambda>d. ''PMP-2024-001''))
       [(partner1, Some (test_response ''resp-1'' [test_bid ''bid-1'' 1.5 ''PMP-2024-001''])),
        (partner2, Some (test_response ''resp-2'' [test_bid ''bid-2'' 2 []]))])
     (test_placement 0.1) =
     Some \<lparr>WinningBid = test_bid ''bid-2'' 2 ''PMP-2024-001'', WinningPartner = partner2,
           AllBids = [\<lparr>BWP_Bid = test_bid ''bid-2'' 2 ''PMP-2024-001'', BWP_Partner = partner2\<rparr>,
                      \<lparr>BWP_Bid = test_bid ''bid-1'' 1.5 ''PMP-2024-001'', BWP_Partner = partner1\<rparr>],
           AuctionType = 2, ClearedPrice = 1.5\<rparr>"
proof -
  let ?rs = "[(partner1, Some (test_response ''resp-1'' [test_bid ''bid-1'' 1.5 ''PMP-2024-001''])),
              (partner2, Some (test_response ''resp-2'' [test_bid ''bid-2'' 2 []]))]"
  let ?r = "\<lparr>WinningBid = test_bid ''bid-2'' 2 [], WinningPartner = partner2,
           AllBids = [\<lparr>BWP_Bid = test_bid ''bid-2'' 2 [], BWP_Partner = partner2\<rparr>,
                      \<lparr>BWP_Bid = test_bid ''bid-1'' 1.5 ''PMP-2024-001'', BWP_Partner = partner1\<rparr>],
           AuctionType = 2, ClearedPrice = 1.5\<rparr>"
  note T = RunAuction_admission_ignores_dealid[of SharedVariable ?rs "test_placement 0.1"
             "\<lambda>d. ''PMP-2024-001''"]
  have ev: "RunAuction SharedVariable ?rs (test_placement 0.1) = Some ?r"
    by (simp add: RunAuction_eval)
  have len: "length (admitted_bids ?rs (test_placement 0.1)) = 2"
    using T ev by simp
  have rel: "RunAuction SharedVariable (map (relabel_entry (\<lambda>d. ''PMP-2024-001'')) ?rs)
               (test_placement 0.1) = Some (relabel_result (\<lambda>d. ''PMP-2024-001'') ?r)"
    using T ev by simp
  have "relabel_result (\<lambda>d. ''PMP-2024-001'') ?r =
     \<lparr>WinningBid = test_bid ''bid-2'' 2 ''PMP-2024-001'', WinningPartner = partner2,
           AllBids = [\<lparr>BWP_Bid = test_bid ''bid-2'' 2 ''PMP-2024-001'', BWP_Partner = partner2\<rparr>,
                      \<lparr>BWP_Bid = test_bid ''bid-1'' 1.5 ''PMP-2024-001'', BWP_Partner = partner1\<rparr>],
           AuctionType = 2, ClearedPrice = 1.5\<rparr>"
    by (simp add: relabel_result_def relabel_bwp_def relabel_bid_def test_bid_def)
  with ev len rel show ?thesis by simp
qed

lemma mset_collected_bids:
  "mset rs1 = mset rs2 \<Longrightarrow> mset (collected_bids sem rs1 p) = mset (collected_bids sem rs2 p)"
proof -
  assume eq: "mset rs1 = mset rs2"
  have "mset (collected_bids sem rs p) =
        sum_mset (image_mset (\<lambda>e. mset (entry_view sem p e)) (mset rs))" for rs
    by (induction rs) (simp_all add: collected_bids_eq)
  then show ?thesis using eq by simp
qed

lemma sort_outer_loop_prices_cong:
  assumes "mset a1 = mset a2"
  shows "map pr (sort_outer_loop pr 0 a1) = map pr (sort_outer_loop pr 0 a2)"
proof -
  have "mset (map pr a1) = mset (map pr a2)" using assms by simp
  then have "sort (map pr a1) = sort (map pr a2)"
    by (intro properties_for_sort) simp_all
  then show ?thesis by (simp add: prices_sort_outer_loop)
qed

lemma sort_outer_loop_cong:
  assumes eq: "mset a1 = mset a2" and d: "distinct (map pr a1)"
  shows "sort_outer_loop pr 0 a1 = sort_outer_loop pr 0 a2"
proof -
  let ?s1 = "sort_outer_loop pr 0 a1" and ?s2 = "sort_outer_loop pr 0 a2"
  have s1: "set ?s1 = set a1" using mset_sort_outer_loop[of pr 0 a1] by (metis set_mset_mset)
  have s2: "set ?s2 = set a1" using mset_sort_outer_loop[of pr 0 a2] eq by (metis set_mset_mset)
  have "inj_on pr (set a1)" using d by (simp add: distinct_map)
  then have "inj_on pr (set ?s1 \<union> set ?s2)" by (simp add: s1 s2)
  then show ?thesis
    using sort_outer_loop_prices_cong[OF eq, of pr] by (simp add: inj_on_map_eq_map)
qed

text \<open>
  C4, as stated, fails: the sort compares prices only and there is no tie-break. Two
  partners bidding 1.00 each: when the map range visits partner 2 first, partner 2 wins,
  and when it visits partner 1 first, partner 1 wins, whichever way the loop variable is
  defined.
\<close>

theorem RunAuction_tie_break_counterexample:
  "RunAuction PerIteration
     [(partner2, Some (test_response ''resp-2'' [test_bid ''bid-2'' 1 []])),
      (partner1, Some (test_response ''resp-1'' [test_bid ''bid-1'' 1 []]))]
     (test_placement 0.1) =
     Some \<lparr>WinningBid = test_bid ''bid-2'' 1 [], WinningPartner = partner2,
           AllBids = [\<lparr>BWP_Bid = test_bid ''bid-2'' 1 [], BWP_Partner = partner2\<rparr>,
                      \<lparr>BWP_Bid = test_bid ''bid-1'' 1 [], BWP_Partner = partner1\<rparr>],
           AuctionType = 2, ClearedPrice = 1\<rparr> \<and>
   RunAuction PerIteration
     [(partner1, Some (test_response ''resp-1'' [test_bid ''bid-1'' 1 []])),
      (partner2, Some (test_response ''resp-2'' [test_bid ''bid-2'' 1 []]))]
     (test_placement 0.1) =
     Some \<lparr>WinningBid = test_bid ''bid-1'' 1 [], WinningPartner = partner1,
           AllBids = [\<lparr>BWP_Bid = test_bid ''bid-1'' 1 [], BWP_Partner = partner1\<rparr>,
                      \<lparr>BWP_Bid = test_bid ''bid-2'' 1 [], BWP_Partner = partner2\<rparr>],
           AuctionType = 2, ClearedPrice = 1\<rparr> \<and>
   RunAuction SharedVariable
     [(partner2, Some (test_response ''resp-2'' [test_bid ''bid-2'' 1 []])),
      (partner1, Some (test_response ''resp-1'' [test_bid ''bid-1'' 1 []]))]
     (test_placement 0.1) =
     Some \<lparr>WinningBid = test_bid ''bid-2'' 1 [], WinningPartner = partner2,
           AllBids = [\<lparr>BWP_Bid = test_bid ''bid-2'' 1 [], BWP_Partner = partner2\<rparr>,
                      \<lparr>BWP_Bid = test_bid ''bid-1'' 1 [], BWP_Partner = partner1\<rparr>],
           AuctionType = 2, ClearedPrice = 1\<rparr> \<and>
   RunAuction SharedVariable
     [(partner1, Some (test_response ''resp-1'' [test_bid ''bid-1'' 1 []])),
      (partner2, Some (test_response ''resp-2'' [test_bid ''bid-2'' 1 []]))]
     (test_placement 0.1) =
     Some \<lparr>WinningBid = test_bid ''bid-1'' 1 [], WinningPartner = partner1,
           AllBids = [\<lparr>BWP_Bid = test_bid ''bid-1'' 1 [], BWP_Partner = partner1\<rparr>,
                      \<lparr>BWP_Bid = test_bid ''bid-2'' 1 [], BWP_Partner = partner2\<rparr>],
           AuctionType = 2, ClearedPrice = 1\<rparr> \<and>
   partner1 \<noteq> partner2"
  by (simp add: RunAuction_eval)

text \<open>
  C4, amended. \<open>RunAuction\<close> ranks by descending price and nothing else:
  \<open>AllBids\<close> holds the collected entries (the slice \<open>allBids\<close> after the
  collection loops, each entry read through its pointer) in order of non-increasing
  price. For two orders in which the map range may visit the same responses, the runs
  agree on whether there is a result, on the sequence of prices of \<open>AllBids\<close>, and
  on the winning and cleared price; when the collected entries have pairwise distinct
  prices, the two runs return the same result, with the same winner and the same
  ordered \<open>AllBids\<close>. This holds whichever way the loop variable is defined.
\<close>

theorem RunAuction_ranking_deterministic:
  assumes "mset rs1 = mset rs2"
  shows "(\<forall>r. RunAuction sem rs1 p = Some r \<longrightarrow>
            sorted_wrt (\<lambda>x y. Bid_Price (BWP_Bid y) \<le> Bid_Price (BWP_Bid x)) (AllBids r) \<and>
            mset (AllBids r) = mset (collected_bids sem rs1 p)) \<and>
         map_option (\<lambda>r. map (\<lambda>b. Bid_Price (BWP_Bid b)) (AllBids r)) (RunAuction sem rs1 p) =
         map_option (\<lambda>r. map (\<lambda>b. Bid_Price (BWP_Bid b)) (AllBids r)) (RunAuction sem rs2 p) \<and>
         map_option (\<lambda>r. Bid_Price (WinningBid r)) (RunAuction sem rs1 p) =
         map_option (\<lambda>r. Bid_Price (WinningBid r)) (RunAuction sem rs2 p) \<and>
         map_option ClearedPrice (RunAuction sem rs1 p) = map_option ClearedPrice (RunAuction sem rs2 p) \<and>
         (distinct (map (\<lambda>b. Bid_Price (BWP_Bid b)) (collected_bids sem rs1 p)) \<longrightarrow>
            RunAuction sem rs1 p = RunAuction sem rs2 p)"
proof -
  let ?a1 = "collected_bids sem rs1 p" and ?a2 = "collected_bids sem rs2 p"
  let ?s1 = "sort_outer_loop bwp_price 0 ?a1" and ?s2 = "sort_outer_loop bwp_price 0 ?a2"
  have pr: "(\<lambda>b. Bid_Price (BWP_Bid b)) = bwp_price" by (simp add: bwp_price_def fun_eq_iff)
  have m: "mset ?a1 = mset ?a2" using assms by (rule mset_collected_bids)
  then have len: "length ?a1 = length ?a2" by (rule mset_eq_length)
  have prices: "map bwp_price ?s1 = map bwp_price ?s2" using m by (rule sort_outer_loop_prices_cong)
  have nth_eq: "i < length ?a1 \<Longrightarrow> bwp_price (?s1 ! i) = bwp_price (?s2 ! i)" for i
    using prices len by (metis length_sort_outer_loop nth_map)
  have first: "(\<forall>r. RunAuction sem rs1 p = Some r \<longrightarrow>
            sorted_wrt (\<lambda>x y. Bid_Price (BWP_Bid y) \<le> Bid_Price (BWP_Bid x)) (AllBids r) \<and>
            mset (AllBids r) = mset ?a1)"
  proof (intro allI impI)
    fix r assume r: "RunAuction sem rs1 p = Some r"
    then have ne: "?a1 \<noteq> []" using RunAuction_None[of sem rs1 p] by auto
    have "AllBids r = ?s1" using RunAuction_Some[OF ne] r by simp
    then show "sorted_wrt (\<lambda>x y. Bid_Price (BWP_Bid y) \<le> Bid_Price (BWP_Bid x)) (AllBids r) \<and>
            mset (AllBids r) = mset ?a1"
      using sorted_sort_outer_loop[of bwp_price ?a1] by (simp add: mset_sort_outer_loop bwp_price_def)
  qed
  show ?thesis
  proof (cases "?a1 = []")
    case True
    then have "?a2 = []" using len by simp
    then have "RunAuction sem rs1 p = None" "RunAuction sem rs2 p = None"
      using True by (simp_all add: RunAuction_None)
    then show ?thesis by simp
  next
    case False
    then have ne2: "?a2 \<noteq> []" using len by auto
    note R1 = RunAuction_Some[OF False] and R2 = RunAuction_Some[OF ne2]
    have l0: "0 < length ?a1" using False by simp
    have p0: "bwp_price (?s1 ! 0) = bwp_price (?s2 ! 0)" using nth_eq[OF l0] .
    have p1: "1 < length ?a1 \<Longrightarrow> bwp_price (?s1 ! 1) = bwp_price (?s2 ! 1)"
      using nth_eq[of 1] by simp
    have A: "map_option (\<lambda>r. map bwp_price (AllBids r)) (RunAuction sem rs1 p) =
             map_option (\<lambda>r. map bwp_price (AllBids r)) (RunAuction sem rs2 p)"
      by (simp add: R1 R2 prices)
    have B: "map_option (\<lambda>r. Bid_Price (WinningBid r)) (RunAuction sem rs1 p) =
             map_option (\<lambda>r. Bid_Price (WinningBid r)) (RunAuction sem rs2 p)"
      using p0 by (simp add: R1 R2 bwp_price_def)
    have C: "map_option ClearedPrice (RunAuction sem rs1 p) = map_option ClearedPrice (RunAuction sem rs2 p)"
      using p1 len by (simp add: R1 R2)
    have D: "distinct (map bwp_price ?a1) \<Longrightarrow> RunAuction sem rs1 p = RunAuction sem rs2 p"
    proof -
      assume "distinct (map bwp_price ?a1)"
      then have "?s1 = ?s2" using m by (intro sort_outer_loop_cong)
      then show ?thesis using len by (simp add: R1 R2)
    qed
    from first A B C D show ?thesis unfolding pr by blast
  qed
qed

text \<open>
  The amended C4 on the fixtures of \<open>TestAuctionEngine\<close>, visited in either order,
  with a shared loop variable: the prices 1.50 and 2.00 are distinct, and both runs
  return the same result.
\<close>

theorem RunAuction_ranking_deterministic_witness:
  "mset [(partner1, Some (test_response ''resp-1'' [test_bid ''bid-1'' 1.5 []])),
         (partner2, Some (test_response ''resp-2'' [test_bid ''bid-2'' 2 []]))] =
   mset [(partner2, Some (test_response ''resp-2'' [test_bid ''bid-2'' 2 []])),
         (partner1, Some (test_response ''resp-1'' [test_bid ''bid-1'' 1.5 []]))] \<and>
   distinct (map (\<lambda>b. Bid_Price (BWP_Bid b))
     (collected_bids SharedVariable
        [(partner1, Some (test_response ''resp-1'' [test_bid ''bid-1'' 1.5 []])),
         (partner2, Some (test_response ''resp-2'' [test_bid ''bid-2'' 2 []]))]
        (test_placement 0.1))) \<and>
   RunAuction SharedVariable
     [(partner1, Some (test_response ''resp-1'' [test_bid ''bid-1'' 1.5 []])),
      (partner2, Some (test_response ''resp-2'' [test_bid ''bid-2'' 2 []]))]
     (test_placement 0.1) =
   RunAuction SharedVariable
     [(partner2, Some (test_response ''resp-2'' [test_bid ''bid-2'' 2 []])),
      (partner1, Some (test_response ''resp-1'' [test_bid ''bid-1'' 1.5 []]))]
     (test_placement 0.1) \<and>
   RunAuction SharedVariable
     [(partner2, Some (test_response ''resp-2'' [test_bid ''bid-2'' 2 []])),
      (partner1, Some (test_response ''resp-1'' [test_bid ''bid-1'' 1.5 []]))]
     (test_placement 0.1) =
     Some \<lparr>WinningBid = test_bid ''bid-2'' 2 [], WinningPartner = partner2,
           AllBids = [\<lparr>BWP_Bid = test_bid ''bid-2'' 2 [], BWP_Partner = partner2\<rparr>,
                      \<lparr>BWP_Bid = test_bid ''bid-1'' 1.5 [], BWP_Partner = partner1\<rparr>],
           AuctionType = 2, ClearedPrice = 1.5\<rparr>"
proof -
  let ?e1 = "(partner1, Some (test_response ''resp-1'' [test_bid ''bid-1'' 1.5 []]))"
  let ?e2 = "(partner2, Some (test_response ''resp-2'' [test_bid ''bid-2'' 2 []]))"
  have h: "mset [?e1, ?e2] = mset [?e2, ?e1]" by (simp add: add_mset_commute)
  have d: "distinct (map (\<lambda>b. Bid_Price (BWP_Bid b))
             (collected_bids SharedVariable [?e1, ?e2] (test_placement 0.1)))"
    by (simp add: collected_bids_eq entry_view_def seat_view_def test_defs)
  have ev: "RunAuction SharedVariable [?e2, ?e1] (test_placement 0.1) =
     Some \<lparr>WinningBid = test_bid ''bid-2'' 2 [], WinningPartner = partner2,
           AllBids = [\<lparr>BWP_Bid = test_bid ''bid-2'' 2 [], BWP_Partner = partner2\<rparr>,
                      \<lparr>BWP_Bid = test_bid ''bid-1'' 1.5 [], BWP_Partner = partner1\<rparr>],
           AuctionType = 2, ClearedPrice = 1.5\<rparr>"
    by (simp add: RunAuction_eval)
  from RunAuction_ranking_deterministic[OF h, of SharedVariable "test_placement 0.1"] d
  have "RunAuction SharedVariable [?e1, ?e2] (test_placement 0.1) =
        RunAuction SharedVariable [?e2, ?e1] (test_placement 0.1)"
    by blast
  with h d ev show ?thesis by blast
qed

section \<open>Properties of supply chains\<close>

lemma validate_nodes_loop_iff:
  "validate_nodes_loop i ns = Inr () \<longleftrightarrow> (\<forall>n\<in>set ns. node_ok n)"
  by (induction ns arbitrary: i) (auto simp: validateNode_def node_ok_def split: sum.splits)

lemma ValidateSupplyChain_iff:
  "ValidateSupplyChain (Some s) = Inr () \<longleftrightarrow>
     slice_elems (SupplyChain_Nodes s) \<noteq> [] \<and> SupplyChain_Ver s \<noteq> [] \<and>
     (\<forall>n\<in>set (slice_elems (SupplyChain_Nodes s)). node_ok n)"
  by (simp add: ValidateSupplyChain_def validate_nodes_loop_iff)

lemma decode_marshal_string [simp]:
  "valid_utf8 s \<Longrightarrow> decode_string (marshal_string s) old = Inr s"
  by (simp add: decode_string_def marshal_string_def valid_utf8_def)

lemma decode_int_JNum [simp]: "go_int i \<Longrightarrow> decode_int (JNum i) old = Inr i"
  by (simp add: decode_int_def)

lemma tag_matches_simps [simp]:
  "tag_matches ''asi'' ''asi''" "tag_matches ''sid'' ''sid''" "tag_matches ''hp'' ''hp''"
  "tag_matches ''rid'' ''rid''" "tag_matches ''name'' ''name''" "tag_matches ''domain'' ''domain''"
  "\<not> tag_matches ''asi'' ''sid''" "\<not> tag_matches ''asi'' ''hp''" "\<not> tag_matches ''asi'' ''rid''"
  "\<not> tag_matches ''asi'' ''name''" "\<not> tag_matches ''asi'' ''domain''"
  "\<not> tag_matches ''sid'' ''hp''" "\<not> tag_matches ''sid'' ''rid''"
  "\<not> tag_matches ''sid'' ''name''" "\<not> tag_matches ''sid'' ''domain''"
  "\<not> tag_matches ''hp'' ''rid''" "\<not> tag_matches ''hp'' ''name''" "\<not> tag_matches ''hp'' ''domain''"
  "\<not> tag_matches ''rid'' ''name''" "\<not> tag_matches ''rid'' ''domain''"
  "\<not> tag_matches ''name'' ''domain''"
  "tag_matches ''complete'' ''complete''" "tag_matches ''nodes'' ''nodes''" "tag_matches ''ver'' ''ver''"
  "\<not> tag_matches ''complete'' ''nodes''" "\<not> tag_matches ''complete'' ''ver''"
  "\<not> tag_matches ''nodes'' ''ver''"
  by (simp_all add: tag_matches_def lower_char_def)

lemma decode_marshal_node:
  assumes "wire_safe_node n"
  shows "decode_node (marshal_node n) = Inr n"
  using assms
  by (cases n) (simp add: decode_node_def marshal_node_def wire_safe_node_def zero_node_def)

lemma decode_marshal_nodes:
  "list_all wire_safe_node ns \<Longrightarrow> decode_nodes (map marshal_node ns) = Inr ns"
  by (induction ns) (simp_all add: decode_marshal_node)

lemma FromJSON_ToJSON:
  assumes "wire_safe s"
  shows "FromJSON (ToJSON s) = Inr s"
proof (cases "SupplyChain_Nodes s")
  case None
  then show ?thesis
    using assms
    by (cases s) (simp add: FromJSON_def ToJSON_def wire_safe_def zero_chain_def decode_slice_def)
next
  case (Some ns)
  then have "decode_nodes (map marshal_node ns) = Inr ns"
    using assms by (simp add: wire_safe_def slice_elems_def decode_marshal_nodes)
  then show ?thesis
    using assms Some
    by (cases s) (simp add: FromJSON_def ToJSON_def wire_safe_def zero_chain_def decode_slice_def)
qed

lemma valid_utf8_fixtures [simp]:
  "valid_utf8 []" "valid_utf8 ''1.0''" "valid_utf8 ''test.com''" "valid_utf8 ''test-001''"
  by (simp_all add: valid_utf8_def coerce_utf8.simps)

lemma wire_safe_fixtures:
  "wire_safe valid_chain" "wire_safe missing_version_chain" "wire_safe empty_nodes_chain"
  by (simp_all add: wire_safe_def wire_safe_node_def valid_chain_def missing_version_chain_def
        empty_nodes_chain_def test_node_def slice_elems_def go_int_def)

text \<open>
  C6, as stated, fails in both directions. The chain of the test case "Missing version"
  comes back from \<open>FromJSON (ToJSON s)\<close> as it went in and its only node has ASI, SID
  and HP in order, yet \<open>ValidateSupplyChain\<close> rejects it. A chain whose ASI is the
  single byte FF validates, yet \<open>ToJSON\<close> writes U+FFFD for the byte and the chain
  that comes back differs.
\<close>

theorem ValidateSupplyChain_roundtrip_counterexample:
  "FromJSON (ToJSON missing_version_chain) = Inr missing_version_chain \<and>
   SupplyChain_Nodes missing_version_chain = Some [test_node] \<and>
   Node_ASI test_node \<noteq> [] \<and> Node_SID test_node \<noteq> [] \<and> Node_HP test_node = 0 \<and>
   ValidateSupplyChain (Some missing_version_chain) = Inl VersionRequired \<and>
   ValidateSupplyChain (Some (valid_chain\<lparr>SupplyChain_Nodes :=
        Some [test_node\<lparr>Node_ASI := [CHR 0xFF]\<rparr>]\<rparr>)) = Inr () \<and>
   FromJSON (ToJSON (valid_chain\<lparr>SupplyChain_Nodes :=
        Some [test_node\<lparr>Node_ASI := [CHR 0xFF]\<rparr>]\<rparr>)) =
     Inr (valid_chain\<lparr>SupplyChain_Nodes :=
        Some [test_node\<lparr>Node_ASI := [CHR 0xEF, CHR 0xBF, CHR 0xBD]\<rparr>]\<rparr>)"
proof -
  have a: "FromJSON (ToJSON missing_version_chain) = Inr missing_version_chain"
    by (rule FromJSON_ToJSON) (rule wire_safe_fixtures)
  have b: "ValidateSupplyChain (Some missing_version_chain) = Inl VersionRequired"
    by (simp add: ValidateSupplyChain_def missing_version_chain_def slice_elems_def)
  have c: "ValidateSupplyChain (Some (valid_chain\<lparr>SupplyChain_Nodes :=
        Some [test_node\<lparr>Node_ASI := [CHR 0xFF]\<rparr>]\<rparr>)) = Inr ()"
    by (simp add: ValidateSupplyChain_def valid_chain_def test_node_def slice_elems_def
          validateNode_def)
  have d: "FromJSON (ToJSON (valid_chain\<lparr>SupplyChain_Nodes :=
        Some [test_node\<lparr>Node_ASI := [CHR 0xFF]\<rparr>]\<rparr>)) =
     Inr (valid_chain\<lparr>SupplyChain_Nodes :=
        Some [test_node\<lparr>Node_ASI := [CHR 0xEF, CHR 0xBF, CHR 0xBD]\<rparr>]\<rparr>)"
    by (simp add: FromJSON_def ToJSON_def valid_chain_def test_node_def marshal_node_def
          marshal_string_def coerce_utf8.simps zero_chain_def zero_node_def decode_int_def
          decode_string_def decode_slice_def decode_node_def go_int_def)
  from a b c d show ?thesis
    by (simp add: missing_version_chain_def test_node_def)
qed

text \<open>
  C6, amended. \<open>ValidateSupplyChain s\<close> succeeds if and only if \<open>s\<close> has at least
  one node, a non-empty version, and every node has a non-empty ASI, a non-empty SID and
  HP 0 or 1. Separately, \<open>FromJSON (ToJSON s)\<close> returns a chain equal to \<open>s\<close> for
  every \<open>s\<close> whose strings are valid UTF-8, whether or not \<open>s\<close> validates.
\<close>

theorem ValidateSupplyChain_characterisation:
  "(ValidateSupplyChain (Some s) = Inr () \<longleftrightarrow>
      slice_elems (SupplyChain_Nodes s) \<noteq> [] \<and> SupplyChain_Ver s \<noteq> [] \<and>
      (\<forall>n\<in>set (slice_elems (SupplyChain_Nodes s)).
          Node_ASI n \<noteq> [] \<and> Node_SID n \<noteq> [] \<and> (Node_HP n = 0 \<or> Node_HP n = 1))) \<and>
   (wire_safe s \<longrightarrow> FromJSON (ToJSON s) = Inr s)"
  using ValidateSupplyChain_iff[of s] FromJSON_ToJSON[of s]
  by (simp add: node_ok_def)

theorem ValidateSupplyChain_characterisation_witness:
  "ValidateSupplyChain (Some valid_chain) = Inr () \<and>
   slice_elems (SupplyChain_Nodes valid_chain) = [test_node] \<and>
   SupplyChain_Ver valid_chain = ''1.0'' \<and>
   Node_ASI test_node = ''test.com'' \<and> Node_SID test_node = ''test-001'' \<and> Node_HP test_node = 0 \<and>
   wire_safe valid_chain \<and> FromJSON (ToJSON valid_chain) = Inr valid_chain \<and>
   wire_safe empty_nodes_chain \<and> FromJSON (ToJSON empty_nodes_chain) = Inr empty_nodes_chain \<and>
   ValidateSupplyChain (Some empty_nodes_chain) = Inl NoNodes"
proof -
  have v: "ValidateSupplyChain (Some valid_chain) = Inr ()"
    using ValidateSupplyChain_characterisation[of valid_chain]
    by (simp add: valid_chain_def test_node_def slice_elems_def)
  have r1: "FromJSON (ToJSON valid_chain) = Inr valid_chain"
    using ValidateSupplyChain_characterisation[of valid_chain] wire_safe_fixtures by blast
  have r2: "FromJSON (ToJSON empty_nodes_chain) = Inr empty_nodes_chain"
    using ValidateSupplyChain_characterisation[of empty_nodes_chain] wire_safe_fixtures by blast
  have e: "ValidateSupplyChain (Some empty_nodes_chain) = Inl NoNodes"
    by (simp add: ValidateSupplyChain_def empty_nodes_chain_def slice_elems_def)
  from v r1 r2 e wire_safe_fixtures show ?thesis
    by (simp add: valid_chain_def test_node_def slice_elems_def)
qed

lemma ValidateSupplyChain_Build:
  assumes "publisherID \<noteq> []"
  shows "ValidateSupplyChain (Some \<lparr>SupplyChain_Complete = c,
           SupplyChain_Nodes = Some (ints @ [\<lparr>Node_ASI = asi, Node_SID = publisherID, Node_HP = 0,
                                             Node_RID = r, Node_Name = nm, Node_Domain = d\<rparr>]),
           SupplyChain_Ver = ''1.0''\<rparr>) = Inr () \<longleftrightarrow>
         asi \<noteq> [] \<and> (\<forall>n\<in>set ints. node_ok n)"
  using assms by (auto simp: ValidateSupplyChain_iff slice_elems_def node_ok_def)

text \<open>
  C7, as stated, fails. \<open>BuildForIntermediary\<close> copies the caller's nodes without
  looking at them: given a node without ASI it returns a chain that
  \<open>ValidateSupplyChain\<close> rejects. \<open>FromJSON\<close> returns whatever the text decodes
  to: for the document \<open>{}\<close> it returns the zero chain, without nodes and without
  version.
\<close>

theorem constructors_validate_counterexample:
  "BuildForIntermediary test_builder ''pub-001'' ''publisher.com'' [test_node\<lparr>Node_ASI := []\<rparr>] =
     Inr \<lparr>SupplyChain_Complete = 1,
          SupplyChain_Nodes = Some [test_node\<lparr>Node_ASI := []\<rparr>,
             \<lparr>Node_ASI = ''ad.nexus'', Node_SID = ''pub-001'', Node_HP = 0, Node_RID = [],
              Node_Name = ''AdNexus'', Node_Domain = ''publisher.com''\<rparr>],
          SupplyChain_Ver = ''1.0''\<rparr> \<and>
   ValidateSupplyChain (Some \<lparr>SupplyChain_Complete = 1,
          SupplyChain_Nodes = Some [test_node\<lparr>Node_ASI := []\<rparr>,
             \<lparr>Node_ASI = ''ad.nexus'', Node_SID = ''pub-001'', Node_HP = 0, Node_RID = [],
              Node_Name = ''AdNexus'', Node_Domain = ''publisher.com''\<rparr>],
          SupplyChain_Ver = ''1.0''\<rparr>) = Inl (NodeError 0 ASIRequired) \<and>
   FromJSON (Doc (JObj [])) = Inr zero_chain \<and>
   ValidateSupplyChain (Some zero_chain) = Inl NoNodes"
  by (simp add: BuildForIntermediary_def test_builder_def NewSupplyChainBuilder_def test_node_def
        ValidateSupplyChain_def slice_elems_def validateNode_def FromJSON_def zero_chain_def)

text \<open>
  C7, amended. Validation is a check of its own, \<open>ValidateSupplyChain\<close>, which
  \<open>AddToSource\<close> applies before it embeds a chain, surfacing a failure as an error
  that wraps the validation error. The three constructors fail only on an empty
  publisher ID; the chain they return passes validation exactly when the builder's ASI
  is non-empty and, for \<open>BuildForIntermediary\<close>, every supplied node has a non-empty
  ASI, a non-empty SID and HP 0 or 1. \<open>FromJSON\<close> does not validate: a chain
  written by \<open>ToJSON\<close> whose strings are all valid UTF-8 (\<open>wire_safe\<close>; its
  integers are values of Go's \<open>int\<close>) comes back from \<open>FromJSON\<close> as it was,
  whether it passes validation or not. Nothing is stated here about chains holding a
  string that is not valid UTF-8.
\<close>

theorem validation_only_in_AddToSource:
  "(publisherID \<noteq> [] \<longrightarrow>
      (\<exists>c. BuildForPublisher b publisherID publisherDomain = Inr c \<and>
           (ValidateSupplyChain (Some c) = Inr () \<longleftrightarrow> ourASI b \<noteq> [])) \<and>
      (\<exists>c. BuildIncomplete b publisherID = Inr c \<and>
           (ValidateSupplyChain (Some c) = Inr () \<longleftrightarrow> ourASI b \<noteq> [])) \<and>
      (\<exists>c. BuildForIntermediary b publisherID publisherDomain intermediaries = Inr c \<and>
           SupplyChain_Nodes c = Some (intermediaries @
              [\<lparr>Node_ASI = ourASI b, Node_SID = publisherID, Node_HP = 0, Node_RID = [],
                Node_Name = ourName b, Node_Domain = publisherDomain\<rparr>]) \<and>
           (ValidateSupplyChain (Some c) = Inr () \<longleftrightarrow>
              ourASI b \<noteq> [] \<and>
              (\<forall>n\<in>set intermediaries.
                  Node_ASI n \<noteq> [] \<and> Node_SID n \<noteq> [] \<and> (Node_HP n = 0 \<or> Node_HP n = 1))))) \<and>
   (publisherID = [] \<longrightarrow>
      BuildForPublisher b publisherID publisherDomain = Inl PublisherIDRequired \<and>
      BuildIncomplete b publisherID = Inl PublisherIDRequired \<and>
      BuildForIntermediary b publisherID publisherDomain intermediaries = Inl PublisherIDRequired) \<and>
   (\<forall>e. ValidateSupplyChain (Some s) = Inl e \<longrightarrow>
      AddToSource (Some src) (Some s) = Inl (InvalidSupplyChain e)) \<and>
   (wire_safe s \<longrightarrow> FromJSON (ToJSON s) = Inr s)"
proof -
  have A: "publisherID \<noteq> [] \<Longrightarrow> \<exists>c. BuildForPublisher b publisherID publisherDomain = Inr c \<and>
           (ValidateSupplyChain (Some c) = Inr () \<longleftrightarrow> ourASI b \<noteq> [])"
    using ValidateSupplyChain_Build[of publisherID _ "[]"]
    by (simp add: BuildForPublisher_def)
  have B: "publisherID \<noteq> [] \<Longrightarrow> \<exists>c. BuildIncomplete b publisherID = Inr c \<and>
           (ValidateSupplyChain (Some c) = Inr () \<longleftrightarrow> ourASI b \<noteq> [])"
    using ValidateSupplyChain_Build[of publisherID _ "[]"]
    by (simp add: BuildIncomplete_def)
  have C: "publisherID \<noteq> [] \<Longrightarrow> \<exists>c. BuildForIntermediary b publisherID publisherDomain intermediaries = Inr c \<and>
           SupplyChain_Nodes c = Some (intermediaries @
              [\<lparr>Node_ASI = ourASI b, Node_SID = publisherID, Node_HP = 0, Node_RID = [],
                Node_Name = ourName b, Node_Domain = publisherDomain\<rparr>]) \<and>
           (ValidateSupplyChain (Some c) = Inr () \<longleftrightarrow>
              ourASI b \<noteq> [] \<and>
              (\<forall>n\<in>set intermediaries.
                  Node_ASI n \<noteq> [] \<and> Node_SID n \<noteq> [] \<and> (Node_HP n = 0 \<or> Node_HP n = 1)))"
    using ValidateSupplyChain_Build[of publisherID _ intermediaries]
    by (simp add: BuildForIntermediary_def node_ok_def)
  have D: "publisherID = [] \<Longrightarrow>
      BuildForPublisher b publisherID publisherDomain = Inl PublisherIDRequired \<and>
      BuildIncomplete b publisherID = Inl PublisherIDRequired \<and>
      BuildForIntermediary b publisherID publisherDomain intermediaries = Inl PublisherIDRequired"
    by (simp add: BuildForPublisher_def BuildIncomplete_def BuildForIntermediary_def)
  have E: "\<forall>e. ValidateSupplyChain (Some s) = Inl e \<longrightarrow>
      AddToSource (Some src) (Some s) = Inl (InvalidSupplyChain e)"
    by (simp add: AddToSource_def)
  have F: "wire_safe s \<longrightarrow> FromJSON (ToJSON s) = Inr s"
    by (simp add: FromJSON_ToJSON)
  from A B C D E F show ?thesis by blast
qed

text \<open>
  The amended C7 on the fixtures: the builder of \<open>TestBuildForIntermediary\<close> with one
  valid reseller node returns a chain that validates; \<open>AddToSource\<close> refuses the chain
  without nodes, which \<open>FromJSON\<close> hands back unchanged.
\<close>

theorem validation_only_in_AddToSource_witness:
  "''pub-001'' \<noteq> [] \<and>
   BuildForIntermediary test_builder ''pub-001'' ''publisher.com''
       [\<lparr>Node_ASI = ''intermediary1.com'', Node_SID = ''int-001'', Node_HP = 1, Node_RID = [],
         Node_Name = ''Intermediary 1'', Node_Domain = ''intermediary1.com''\<rparr>] =
     Inr \<lparr>SupplyChain_Complete = 1,
          SupplyChain_Nodes = Some
            [\<lparr>Node_ASI = ''intermediary1.com'', Node_SID = ''int-001'', Node_HP = 1, Node_RID = [],
              Node_Name = ''Intermediary 1'', Node_Domain = ''intermediary1.com''\<rparr>,
             \<lparr>Node_ASI = ''ad.nexus'', Node_SID = ''pub-001'', Node_HP = 0, Node_RID = [],
              Node_Name = ''AdNexus'', Node_Domain = ''publisher.com''\<rparr>],
          SupplyChain_Ver = ''1.0''\<rparr> \<and>
   ValidateSupplyChain (Some \<lparr>SupplyChain_Complete = 1,
          SupplyChain_Nodes = Some
            [\<lparr>Node_ASI = ''intermediary1.com'', Node_SID = ''int-001'', Node_HP = 1, Node_RID = [],
              Node_Name = ''Intermediary 1'', Node_Domain = ''intermediary1.com''\<rparr>,
             \<lparr>Node_ASI = ''ad.nexus'', Node_SID = ''pub-001'', Node_HP = 0, Node_RID = [],
              Node_Name = ''AdNexus'', Node_Domain = ''publisher.com''\<rparr>],
          SupplyChain_Ver = ''1.0''\<rparr>) = Inr () \<and>
   BuildForPublisher test_builder [] ''publisher.com'' = Inl PublisherIDRequired \<and>
   ValidateSupplyChain (Some empty_nodes_chain) = Inl NoNodes \<and>
   AddToSource (Some (test_source ExtNil)) (Some empty_nodes_chain) = Inl (InvalidSupplyChain NoNodes) \<and>
   wire_safe empty_nodes_chain \<and>
   FromJSON (ToJSON empty_nodes_chain) = Inr empty_nodes_chain"
proof -
  let ?int = "\<lparr>Node_ASI = ''intermediary1.com'', Node_SID = ''int-001'', Node_HP = 1, Node_RID = [],
         Node_Name = ''Intermediary 1'', Node_Domain = ''intermediary1.com''\<rparr>"
  note T1 = validation_only_in_AddToSource[where publisherID = "''pub-001''" and b = test_builder
      and publisherDomain = "''publisher.com''" and intermediaries = "[?int]"
      and s = empty_nodes_chain and src = "test_source ExtNil"]
  note T2 = validation_only_in_AddToSource[where publisherID = "[]" and b = test_builder
      and publisherDomain = "''publisher.com''" and intermediaries = "[]"
      and s = empty_nodes_chain and src = "test_source ExtNil"]
  have ne: "''pub-001'' \<noteq> []" by simp
  have asi: "ourASI test_builder = ''ad.nexus''" "ourName test_builder = ''AdNexus''"
    by (simp_all add: test_builder_def NewSupplyChainBuilder_def)
  have ev: "BuildForIntermediary test_builder ''pub-001'' ''publisher.com'' [?int] =
     Inr \<lparr>SupplyChain_Complete = 1,
          SupplyChain_Nodes = Some [?int,
             \<lparr>Node_ASI = ''ad.nexus'', Node_SID = ''pub-001'', Node_HP = 0, Node_RID = [],
              Node_Name = ''AdNexus'', Node_Domain = ''publisher.com''\<rparr>],
          SupplyChain_Ver = ''1.0''\<rparr>"
    by (simp add: BuildForIntermediary_def asi)
  have v: "ValidateSupplyChain (Some \<lparr>SupplyChain_Complete = 1,
          SupplyChain_Nodes = Some [?int,
             \<lparr>Node_ASI = ''ad.nexus'', Node_SID = ''pub-001'', Node_HP = 0, Node_RID = [],
              Node_Name = ''AdNexus'', Node_Domain = ''publisher.com''\<rparr>],
          SupplyChain_Ver = ''1.0''\<rparr>) = Inr ()"
    using T1 ne by (simp add: ev asi)
  have p: "BuildForPublisher test_builder [] ''publisher.com'' = Inl PublisherIDRequired"
    using T2 by simp
  have n: "ValidateSupplyChain (Some empty_nodes_chain) = Inl NoNodes"
    by (simp add: ValidateSupplyChain_def empty_nodes_chain_def slice_elems_def)
  have a: "AddToSource (Some (test_source ExtNil)) (Some empty_nodes_chain) =
             Inl (InvalidSupplyChain NoNodes)"
    using T1 n by blast
  have w: "wire_safe empty_nodes_chain" by (rule wire_safe_fixtures)
  have f: "FromJSON (ToJSON empty_nodes_chain) = Inr empty_nodes_chain"
    using T1 w by blast
  from ne ev v p n a w f show ?thesis by blast
qed

lemma AddToSource_frame:
  assumes "AddToSource (Some src) schain = Inr src'"
  shows "Source_FD src' = Source_FD src \<and> Source_TID src' = Source_TID src \<and>
         Source_PChain src' = Source_PChain src"
  using assms
  by (auto simp: AddToSource_def Let_def split: option.splits sum.splits)

text \<open>
  C8 on the code. The source of \<open>TestAddToSource\<close> with \<open>ext\<close> given as the string
  \<open>{"foo":1}\<close>: the first call keeps \<open>foo\<close> beside \<open>schain\<close> and stores the
  result as a \<open>json.RawMessage\<close>; a second call on that source finds a dynamic type
  that is neither \<open>string\<close> nor \<open>[]byte\<close>, starts from the empty map and drops
  \<open>foo\<close>. The same happens for a \<open>json.RawMessage\<close> the caller put there.
\<close>

theorem AddToSource_drops_RawMessage_keys:
  "AddToSource (Some (test_source (ExtString (Doc (JObj [(''foo'', JNum 1)]))))) (Some valid_chain) =
     Inr (test_source (ExtRawMessage (Doc (JObj
       [(''foo'', JNum 1),
        (''schain'', JObj [(''complete'', JNum 1),
                           (''nodes'', JArr [JObj [(''asi'', JStr ''test.com''),
                                                   (''sid'', JStr ''test-001'')]]),
                           (''ver'', JStr ''1.0'')])])))) \<and>
   AddToSource (Some (test_source (ExtRawMessage (Doc (JObj
       [(''foo'', JNum 1),
        (''schain'', JObj [(''complete'', JNum 1),
                           (''nodes'', JArr [JObj [(''asi'', JStr ''test.com''),
                                                   (''sid'', JStr ''test-001'')]]),
                           (''ver'', JStr ''1.0'')])]))))) (Some valid_chain) =
     Inr (test_source (ExtRawMessage (Doc (JObj
       [(''schain'', JObj [(''complete'', JNum 1),
                           (''nodes'', JArr [JObj [(''asi'', JStr ''test.com''),
                                                   (''sid'', JStr ''test-001'')]]),
                           (''ver'', JStr ''1.0'')])])))) \<and>
   AddToSource (Some (test_source (ExtRawMessage (Doc (JObj [(''foo'', JNum 1)]))))) (Some valid_chain) =
     Inr (test_source (ExtRawMessage (Doc (JObj
       [(''schain'', JObj [(''complete'', JNum 1),
                           (''nodes'', JArr [JObj [(''asi'', JStr ''test.com''),
                                                   (''sid'', JStr ''test-001'')]]),
                           (''ver'', JStr ''1.0'')])]))))"
  by (simp add: AddToSource_def ValidateSupplyChain_def slice_elems_def validateNode_def
        ToJSON_def valid_chain_def test_node_def test_source_def marshal_node_def
        marshal_string_def coerce_utf8.simps text_any_def parse_existing_ext_def)

lemma map_of_set_key: "map_of (set_key k v m) = (map_of m)(k \<mapsto> v)"
  by (induction m) (auto simp: fun_eq_iff)

lemma map_of_set_members: "map_of (set_members m members) = map_of m ++ map_of (rev members)"
  by (induction m members rule: set_members.induct) (simp_all add: map_of_set_key map_add_def fun_eq_iff split: option.splits)

text \<open>
  The part of C8 the code keeps: when the prior \<open>ext\<close> is a string or a byte slice
  holding a JSON object, every member other than \<open>schain\<close> is still there after the
  call, with the value its last occurrence had (as \<open>json.Unmarshal\<close> into an
  \<open>interface{}\<close> reads it).
\<close>

lemma AddToSource_keeps_string_keys:
  assumes ext: "Source_Ext src = ExtString (Doc (JObj members)) \<or>
                Source_Ext src = ExtBytes (Doc (JObj members))"
    and ok: "ValidateSupplyChain (Some s) = Inr ()"
    and k: "k \<noteq> ''schain''"
  shows "\<exists>m. AddToSource (Some src) (Some s) =
              Inr (src\<lparr>Source_Ext := ExtRawMessage (Doc (JObj m))\<rparr>) \<and>
             map_of m ''schain'' = Some (text_any (ToJSON s)) \<and>
             map_of m k = map_of (rev (map (map_prod id decode_any) members)) k"
  using ext ok k
  by (auto simp: AddToSource_def Let_def parse_existing_ext_def map_of_set_key map_of_set_members)

section \<open>Claim about the bid-request builder\<close>

text \<open>
  C5, as stated, fails for the ad type \<open>audio\<close>: the \<open>switch\<close> has no case for
  it, and \<open>BuildBidRequest\<close> returns the error "unsupported ad type: audio" and no
  request.
\<close>

theorem BuildBidRequest_audio_counterexample:
  "BuildBidRequest ''u1'' ''u2'' ''u3'' test_adReq (typed_placement ''audio'') test_site test_publisher =
     Inl (UnsupportedAdType ''audio'')"
  by (simp add: BuildBidRequest_def typed_placement_def)

text \<open>
  C5, amended. For every placement whose ad type is banner, video or native,
  \<open>BuildBidRequest\<close> succeeds with a single impression in which exactly one of
  banner, video, audio and native is set: the one the ad type names; audio is never set.
  For the ad type audio, as for every other ad type, it returns the error
  "unsupported ad type" instead of a request.
\<close>

theorem BuildBidRequest_media_type:
  "(Placement_AdType placement \<in> {''banner'', ''video'', ''native''} \<longrightarrow>
      (\<exists>req imp. BuildBidRequest ua ub uc adReq placement site pub = Inr req \<and>
         BidRequest_Imp req = [imp] \<and> media_count imp = 1 \<and> Impression_Audio imp = None \<and>
         (Impression_Banner imp \<noteq> None \<longleftrightarrow> Placement_AdType placement = ''banner'') \<and>
         (Impression_Video imp \<noteq> None \<longleftrightarrow> Placement_AdType placement = ''video'') \<and>
         (Impression_Native imp \<noteq> None \<longleftrightarrow> Placement_AdType placement = ''native'') \<and>
         (Placement_AdType placement = ''banner'' \<longrightarrow>
            Impression_Banner imp = Some (buildBanner placement)) \<and>
         (Placement_AdType placement = ''video'' \<longrightarrow>
            Impression_Video imp = Some (buildVideo placement)))) \<and>
   (Placement_AdType placement \<notin> {''banner'', ''video'', ''native''} \<longrightarrow>
      BuildBidRequest ua ub uc adReq placement site pub =
        Inl (UnsupportedAdType (Placement_AdType placement)))"
  by (auto simp: BuildBidRequest_def media_count_def Let_def)

theorem BuildBidRequest_media_type_witness:
  "''banner'' \<in> {''banner'', ''video'', ''native''} \<and>
   (\<exists>req imp. BuildBidRequest ''u1'' ''u2'' ''u3'' test_adReq (typed_placement ''banner'')
                  test_site test_publisher = Inr req \<and>
      BidRequest_Imp req = [imp] \<and> media_count imp = 1 \<and>
      Impression_Banner imp = Some (buildBanner (typed_placement ''banner'')) \<and>
      Impression_Video imp = None \<and> Impression_Audio imp = None \<and> Impression_Native imp = None) \<and>
   (\<exists>req imp. BuildBidRequest ''u1'' ''u2'' ''u3'' test_adReq (typed_placement ''video'')
                  test_site test_publisher = Inr req \<and>
      BidRequest_Imp req = [imp] \<and> media_count imp = 1 \<and>
      Impression_Video imp = Some (buildVideo (typed_placement ''video'')) \<and>
      Impression_Banner imp = None \<and> Impression_Audio imp = None \<and> Impression_Native imp = None) \<and>
   ''rich-media'' \<notin> {''banner'', ''video'', ''native''} \<and>
   BuildBidRequest ''u1'' ''u2'' ''u3'' test_adReq (typed_placement ''rich-media'')
                  test_site test_publisher = Inl (UnsupportedAdType ''rich-media'')"
proof -
  have t: "Placement_AdType (typed_placement a) = a" for a by (simp add: typed_placement_def)
  note B = BuildBidRequest_media_type[where placement = "typed_placement ''banner''"
             and ua = "''u1''" and ub = "''u2''" and uc = "''u3''" and adReq = test_adReq
             and site = test_site and pub = test_publisher]
  note V = BuildBidRequest_media_type[where placement = "typed_placement ''video''"
             and ua = "''u1''" and ub = "''u2''" and uc = "''u3''" and adReq = test_adReq
             and site = test_site and pub = test_publisher]
  note R = BuildBidRequest_media_type[where placement = "typed_placement ''rich-media''"
             and ua = "''u1''" and ub = "''u2''" and uc = "''u3''" and adReq = test_adReq
             and site = test_site and pub = test_publisher]
  have b: "\<exists>req imp. BuildBidRequest ''u1'' ''u2'' ''u3'' test_adReq (typed_placement ''banner'')
                  test_site test_publisher = Inr req \<and>
      BidRequest_Imp req = [imp] \<and> media_count imp = 1 \<and>
      Impression_Banner imp = Some (buildBanner (typed_placement ''banner'')) \<and>
      Impression_Video imp = None \<and> Impression_Audio imp = None \<and> Impression_Native imp = None"
    using B unfolding t by auto
  have v: "\<exists>req imp. BuildBidRequest ''u1'' ''u2'' ''u3'' test_adReq (typed_placement ''video'')
                  test_site test_publisher = Inr req \<and>
      BidRequest_Imp req = [imp] \<and> media_count imp = 1 \<and>
      Impression_Video imp = Some (buildVideo (typed_placement ''video'')) \<and>
      Impression_Banner imp = None \<and> Impression_Audio imp = None \<and> Impression_Native imp = None"
    using V unfolding t by auto
  have r: "BuildBidRequest ''u1'' ''u2'' ''u3'' test_adReq (typed_placement ''rich-media'')
                  test_site test_publisher = Inl (UnsupportedAdType ''rich-media'')"
    using R unfolding t by simp
  from b v r show ?thesis by simp
qed

section \<open>Claim about the sellers.json projection\<close>

lemma sellers_loop_eq:
  "sellers_loop publishers sellers = sellers @ map seller_of (filter Publisher_Active publishers)"
  by (induction publishers arbitrary: sellers) (simp_all add: seller_of_def Let_def)

text \<open>
  C10. \<open>GenerateFromPublishers\<close> always returns a document. Its sellers are the
  entries of the active publishers, one each and in catalog order, and none for an
  inactive publisher; so every seller has the id of an active publisher of the list.
  Every seller has seller type \<open>PUBLISHER\<close>, and a seller without domain (its
  publisher's domain being empty) has \<open>is_confidential = 1\<close>.
\<close>

theorem GenerateFromPublishers_sellers:
  "\<exists>doc. GenerateFromPublishers g publishers = Inr doc \<and>
     SellersJSON_Sellers doc = map seller_of (filter Publisher_Active publishers) \<and>
     length (SellersJSON_Sellers doc) = length (filter Publisher_Active publishers) \<and>
     (\<forall>e\<in>set (SellersJSON_Sellers doc).
        (\<exists>p\<in>set publishers. Publisher_ID p = Seller_SellerID e \<and> Publisher_Active p \<and>
            Publisher_Domain p = Seller_Domain e) \<and>
        Seller_SellerType e = ''PUBLISHER'' \<and>
        (Seller_Domain e = [] \<longrightarrow> Seller_IsConfidential e = 1) \<and>
        (Seller_Domain e \<noteq> [] \<longrightarrow> Seller_IsConfidential e = 0))"
  by (auto simp: GenerateFromPublishers_def sellers_loop_eq seller_of_def)

theorem GenerateFromPublishers_sellers_witness:
  "GenerateFromPublishers test_generator test_publishers =
     Inr \<lparr>SellersJSON_ContactEmail = ''contact@ad.nexus'',
          SellersJSON_ContactAddress = ''123 Main St'',
          SellersJSON_Version = ''1.0'',
          SellersJSON_Identifiers = [\<lparr>Identifier_Name = ''TAG-ID'', Identifier_Value = ''ABC123''\<rparr>],
          SellersJSON_Sellers =
            [\<lparr>Seller_SellerID = ''pub-001'', Seller_Name = ''Publisher One'',
              Seller_Domain = ''publisher1.com'', Seller_SellerType = ''PUBLISHER'',
              Seller_IsConfidential = 0, Seller_IsPassthrough = 0\<rparr>,
             \<lparr>Seller_SellerID = ''pub-002'', Seller_Name = ''Publisher Two'',
              Seller_Domain = ''publisher2.com'', Seller_SellerType = ''PUBLISHER'',
              Seller_IsConfidential = 0, Seller_IsPassthrough = 0\<rparr>,
             \<lparr>Seller_SellerID = ''pub-004'', Seller_Name = ''Confidential Publisher'',
              Seller_Domain = [], Seller_SellerType = ''PUBLISHER'',
              Seller_IsConfidential = 1, Seller_IsPassthrough = 0\<rparr>]\<rparr> \<and>
   length (filter Publisher_Active test_publishers) = 3"
proof -
  have f: "filter Publisher_Active test_publishers =
     [catalog_publisher ''pub-001'' ''Publisher One'' ''publisher1.com'' ''pub1@example.com'' True,
      catalog_publisher ''pub-002'' ''Publisher Two'' ''publisher2.com'' ''pub2@example.com'' True,
      catalog_publisher ''pub-004'' ''Confidential Publisher'' [] ''confidential@example.com'' True]"
    by (simp add: test_publishers_def catalog_publisher_def)
  obtain doc where d: "GenerateFromPublishers test_generator test_publishers = Inr doc"
      "SellersJSON_Sellers doc = map seller_of (filter Publisher_Active test_publishers)"
    using GenerateFromPublishers_sellers[of test_generator test_publishers] by blast
  have "doc = \<lparr>SellersJSON_ContactEmail = ''contact@ad.nexus'',
          SellersJSON_ContactAddress = ''123 Main St'',
          SellersJSON_Version = ''1.0'',
          SellersJSON_Identifiers = [\<lparr>Identifier_Name = ''TAG-ID'', Identifier_Value = ''ABC123''\<rparr>],
          SellersJSON_Sellers = map seller_of (filter Publisher_Active test_publishers)\<rparr>"
    using d by (auto simp: GenerateFromPublishers_def test_generator_def AddIdentifier_def
                  NewSellersJSONGenerator_def)
  then show ?thesis
    using d(1) unfolding f by (simp add: seller_of_def catalog_publisher_def)
qed

section \<open>Claim about the SSAI normalizer\<close>

lemma video_size_convertToOpenRTB:
  "video_size (convertToOpenRTB uuid req) =
     Some (Some (fst (parse_size (SSAI_Params req))), Some (snd (parse_size (SSAI_Params req))))"
  by (simp add: video_size_def convertToOpenRTB_def Let_def split: prod.splits)

text \<open>
  The cases of C9 that the code handles as the claim says: without a \<open>size\<close>
  parameter, with one that is not a string, and with one that does not split into two
  parts at \<open>x\<close>, the size is 1920 by 1080.
\<close>

lemma parse_size_default:
  assumes "params ''size'' = None \<or> (\<exists>v. params ''size'' = Some v \<and> (\<forall>s. v \<noteq> JStr s)) \<or>
           (\<exists>s. params ''size'' = Some (JStr s) \<and> length (split_on (CHR ''x'') s) \<noteq> 2)"
  shows "parse_size params = (1920, 1080)"
  using assms by (auto simp: parse_size_def Let_def split: option.splits json.splits)

text \<open>
  C9 on the code. A \<open>size\<close> of the form \<open>WxH\<close> with a non-numeric component:
  \<open>ParseInt\<close> returns 0 with a syntax error, the error is discarded and the 0
  overwrites the default. For \<open>"abcx1080"\<close> the video is 0 by 1080, for
  \<open>"1920xabc"\<close> it is 1920 by 0, where the claim says 1920 by 1080.
\<close>

theorem convertToOpenRTB_size_not_defaulted:
  "ParseInt ''abc'' = (0, Some ErrSyntax) \<and>
   video_size (convertToOpenRTB ''u'' (ssai_request [''size'' \<mapsto> JStr ''abcx1080''])) =
     Some (Some 0, Some 1080) \<and>
   video_size (convertToOpenRTB ''u'' (ssai_request [''size'' \<mapsto> JStr ''1920xabc''])) =
     Some (Some 1920, Some 0)"
  by (simp add: video_size_convertToOpenRTB ssai_request_def parse_size_def ParseInt_def
        ParseUint_def)

end
